theory Spec2Isabelle
  imports Main "HOL-Library.AList" "HOL-Library.Sublist"
begin

section \<open>JavaScript values\<close>

text \<open>
  The importer (\<^verbatim>\<open>index.js\<close>) receives its records from \<^verbatim>\<open>JSON.parse\<close> or from the CSV
  reader, so a record and each of its fields is an arbitrary JSON value, with
  \<^verbatim>\<open>undefined\<close> for a property that is not there. Numbers are the integers of magnitude
  at most \<open>2^53\<close>, on which a double is exact and which it prints as their decimal
  numeral; characters are 8-bit, so a string is a \<open>string\<close>. An object is the association
  list of its own properties.
\<close>

datatype jsval =
    JUndefined
  | JNull
  | JBool bool
  | JNum int
  | JStr string
  | JArr "jsval list"
  | JObj "(string \<times> jsval) list"

datatype js_error = Error string | TypeError string

fun error_message :: "js_error \<Rightarrow> string" where
  "error_message (Error m) = m"
| "error_message (TypeError m) = m"

text \<open>Truthiness (\<^verbatim>\<open>!x\<close>, \<^verbatim>\<open>x || y\<close>, \<^verbatim>\<open>if (x)\<close>).\<close>

fun truthy :: "jsval \<Rightarrow> bool" where
  "truthy JUndefined = False"
| "truthy JNull = False"
| "truthy (JBool b) = b"
| "truthy (JNum n) = (n \<noteq> 0)"
| "truthy (JStr s) = (s \<noteq> [])"
| "truthy (JArr xs) = True"
| "truthy (JObj kvs) = True"

text \<open>
  Reading a property \<^verbatim>\<open>o.k\<close>: a TypeError on \<^verbatim>\<open>null\<close> and \<^verbatim>\<open>undefined\<close> (the message is
  the one of V8, the engine of the \<^verbatim>\<open>node20\<close> runtime the action declares), the own
  property of an object, and \<^verbatim>\<open>undefined\<close> otherwise: none of the names the importer reads
  (title, body, description, labels, assignees, milestone) is inherited from a prototype.
\<close>

definition cannot_read :: "string \<Rightarrow> string \<Rightarrow> js_error" where
  "cannot_read what k =
     TypeError (''Cannot read properties of '' @ what @ '' (reading '' @ [CHR 0x27] @ k @ [CHR 0x27] @ '')'')"

fun getProp :: "jsval \<Rightarrow> string \<Rightarrow> js_error + jsval" where
  "getProp JUndefined k = Inl (cannot_read ''undefined'' k)"
| "getProp JNull k = Inl (cannot_read ''null'' k)"
| "getProp (JObj kvs) k = Inr (case map_of kvs k of None \<Rightarrow> JUndefined | Some v \<Rightarrow> v)"
| "getProp v k = Inr JUndefined"

text \<open>The same read where it cannot fail (the receiver is known not to be nullish).\<close>

definition readProp :: "jsval \<Rightarrow> string \<Rightarrow> jsval" where
  "readProp v k = (case getProp v k of Inl e \<Rightarrow> JUndefined | Inr x \<Rightarrow> x)"

section \<open>Strings\<close>

text \<open>The white space \<^verbatim>\<open>String.prototype.trim\<close> and \<^verbatim>\<open>parseInt\<close> strip, among 8-bit characters.\<close>

definition is_whitespace :: "char \<Rightarrow> bool" where
  "is_whitespace c \<longleftrightarrow>
     c = CHR 0x09 \<or> c = CHR 0x0A \<or> c = CHR 0x0B \<or> c = CHR 0x0C \<or> c = CHR 0x0D
     \<or> c = CHR 0x20 \<or> c = CHR 0xA0"

definition trim :: "string \<Rightarrow> string" where
  "trim s = rev (dropWhile is_whitespace (rev (dropWhile is_whitespace s)))"

text \<open>
  \<^verbatim>\<open>s.split(',')\<close>, generalised to a predicate on the separator: the pieces between
  separators, so that a string without separator is one piece and \<^verbatim>\<open>''.split(',')\<close> is
  \<^verbatim>\<open>['']\<close>.
\<close>

fun split_where :: "(char \<Rightarrow> bool) \<Rightarrow> string \<Rightarrow> string list" where
  "split_where P [] = [[]]"
| "split_where P (c # cs) =
     (if P c then [] # split_where P cs
      else (case split_where P cs of
              [] \<Rightarrow> [[c]]
            | piece # pieces \<Rightarrow> (c # piece) # pieces))"

definition split_comma :: "string \<Rightarrow> string list" where
  "split_comma s = split_where (\<lambda>c. c = CHR '','') s"

text \<open>\<^verbatim>\<open>s.replace(/;/g, ',')\<close>\<close>

definition replace_semicolons :: "string \<Rightarrow> string" where
  "replace_semicolons s = map (\<lambda>c. if c = CHR '';'' then CHR '','' else c) s"

text \<open>\<^verbatim>\<open>xs.join(sep)\<close> on strings.\<close>

fun join :: "string \<Rightarrow> string list \<Rightarrow> string" where
  "join sep [] = []"
| "join sep [x] = x"
| "join sep (x # y # ys) = x @ sep @ join sep (y # ys)"

section \<open>Field normalizers: \<^verbatim>\<open>parseLabels\<close> and \<^verbatim>\<open>parseAssignees\<close>\<close>

text \<open>The array filter \<^verbatim>\<open>x => x && typeof x === 'string'\<close> keeps the non-empty strings.\<close>

fun nonempty_strings :: "jsval list \<Rightarrow> string list" where
  "nonempty_strings [] = []"
| "nonempty_strings (JStr s # vs) = (if s \<noteq> [] then s # nonempty_strings vs else nonempty_strings vs)"
| "nonempty_strings (v # vs) = nonempty_strings vs"

definition parseLabels :: "jsval \<Rightarrow> string list" where
  "parseLabels labels =
     (if \<not> truthy labels then []
      else case labels of
          JArr xs \<Rightarrow> nonempty_strings xs
        | JStr s \<Rightarrow>
            (let normalized = replace_semicolons s
             in filter (\<lambda>label. label \<noteq> []) (map trim (split_comma normalized)))
        | _ \<Rightarrow> [])"

definition parseAssignees :: "jsval \<Rightarrow> string list" where
  "parseAssignees assignees =
     (if \<not> truthy assignees then []
      else case assignees of
          JArr xs \<Rightarrow> nonempty_strings xs
        | JStr s \<Rightarrow>
            (let normalized = replace_semicolons s
             in filter (\<lambda>assignee. assignee \<noteq> []) (map trim (split_comma normalized)))
        | _ \<Rightarrow> [])"

text \<open>Exchanging the two separators of a string, to state that they are interchangeable.\<close>

definition swap_separators :: "string \<Rightarrow> string" where
  "swap_separators s =
     map (\<lambda>c. if c = CHR '';'' then CHR '','' else if c = CHR '','' then CHR '';'' else c) s"

definition is_separator :: "char \<Rightarrow> bool" where
  "is_separator c \<longleftrightarrow> c = CHR '','' \<or> c = CHR '';''"

section \<open>Numbers and strings\<close>

text \<open>
  \<^verbatim>\<open>Number.prototype.toString\<close> on an integer of magnitude at most \<open>2^53\<close> is its decimal
  numeral, with a minus sign when negative. \<^verbatim>\<open>parseInt(s, 10)\<close> skips leading white space,
  reads an optional sign and the longest run of decimal digits that follows, and is
  \<^verbatim>\<open>NaN\<close> (here \<open>None\<close>) when that run is empty; otherwise \<open>parseInt\<close> below is the
  integer the digits denote, and the number the engine returns is the double nearest to
  it: the integer itself up to \<open>2^53\<close>. What happens beyond is left to the world (see
  \<open>prints_back\<close>).
\<close>

definition digit_char :: "nat \<Rightarrow> char" where
  "digit_char d = ''0123456789'' ! d"

definition is_digit :: "char \<Rightarrow> bool" where
  "is_digit c \<longleftrightarrow> (48::nat) \<le> of_char c \<and> of_char c \<le> (57::nat)"

definition digit_val :: "char \<Rightarrow> nat" where
  "digit_val c = of_char c - 48"

fun nat_digits :: "nat \<Rightarrow> string" where
  "nat_digits n =
     (if n < 10 then [digit_char n] else nat_digits (n div 10) @ [digit_char (n mod 10)])"

declare nat_digits.simps [simp del]

definition Number_toString :: "int \<Rightarrow> string" where
  "Number_toString n =
     (if n < 0 then CHR ''-'' # nat_digits (nat (- n)) else nat_digits (nat n))"

definition digits_value :: "string \<Rightarrow> nat" where
  "digits_value Z = foldl (\<lambda>a c. 10 * a + digit_val c) 0 Z"

definition safe_integer :: "int \<Rightarrow> bool" where
  "safe_integer n \<longleftrightarrow> \<bar>n\<bar> \<le> 9007199254740992"

definition parseInt :: "string \<Rightarrow> int option" where
  "parseInt inputString =
     (let S = dropWhile is_whitespace inputString;
          sign = (if S \<noteq> [] \<and> hd S = CHR ''-'' then - 1 else 1);
          S' = (if S \<noteq> [] \<and> (hd S = CHR ''+'' \<or> hd S = CHR ''-'') then tl S else S);
          Z = takeWhile is_digit S'
      in if Z = [] then None else Some (sign * int (digits_value Z)))"

text \<open>
  The conversion of a value to a string, as a template literal, \<^verbatim>\<open>parseInt\<close> and
  \<^verbatim>\<open>toString()\<close> perform it. It throws a TypeError (\<open>None\<close>) on an object whose own
  property \<^verbatim>\<open>toString\<close> hides the inherited method: a JSON value is never callable, and
  the inherited \<^verbatim>\<open>valueOf\<close> returns the object itself. An array joins the strings of its
  elements with commas, \<^verbatim>\<open>null\<close> and \<^verbatim>\<open>undefined\<close> elements counting as empty.
\<close>

fun js_ToString :: "jsval \<Rightarrow> string option"
  and js_elements :: "jsval list \<Rightarrow> string list option" where
  "js_ToString JUndefined = Some ''undefined''"
| "js_ToString JNull = Some ''null''"
| "js_ToString (JBool b) = Some (if b then ''true'' else ''false'')"
| "js_ToString (JNum n) = Some (Number_toString n)"
| "js_ToString (JStr s) = Some s"
| "js_ToString (JArr xs) = map_option (join '','') (js_elements xs)"
| "js_ToString (JObj kvs) =
     (if map_of kvs ''toString'' = None then Some ''[object Object]'' else None)"
| "js_elements [] = Some []"
| "js_elements (x # xs) =
     (case (if x = JUndefined \<or> x = JNull then Some [] else js_ToString x) of
        None \<Rightarrow> None
      | Some s \<Rightarrow> (case js_elements xs of None \<Rightarrow> None | Some ss \<Rightarrow> Some (s # ss)))"

definition cannot_convert :: js_error where
  "cannot_convert = TypeError ''Cannot convert object to primitive value''"

text \<open>\<^verbatim>\<open>${x}\<close> for a string that may be \<^verbatim>\<open>undefined\<close>.\<close>

definition tmpl :: "string option \<Rightarrow> string" where
  "tmpl x = (case x of None \<Rightarrow> ''undefined'' | Some s \<Rightarrow> s)"

definition squote :: "string \<Rightarrow> string" where
  "squote s = [CHR 0x27] @ s @ [CHR 0x27]"

definition dquote :: "string \<Rightarrow> string" where
  "dquote s = [CHR 0x22] @ s @ [CHR 0x22]"

section \<open>The remote API, the log and the world\<close>

text \<open>
  What the GitHub client rejects with: \<^verbatim>\<open>error.status\<close>, \<^verbatim>\<open>error.message\<close>,
  \<^verbatim>\<open>error.response?.data?.errors\<close> (the field-level errors of a 422 answer) and
  \<^verbatim>\<open>error.documentation_url\<close>, each \<open>None\<close> when \<^verbatim>\<open>undefined\<close>.
\<close>

record field_error =
  fe_field :: "string option"
  fe_code :: "string option"
  fe_message :: "string option"

record remote_error =
  re_status :: "int option"
  re_message :: "string option"
  re_errors :: "field_error list option"
  re_documentation_url :: "string option"

record milestone_data =
  ms_title :: string
  ms_number :: int

record issue_response =
  resp_number :: int
  resp_html_url :: string

text \<open>\<^verbatim>\<open>context.repo\<close>\<close>

record github_context =
  owner :: string
  repo :: string

text \<open>The validated, creation-ready issue \<^verbatim>\<open>validateIssue\<close> returns.\<close>

record normalized_issue =
  issue_title :: string
  issue_body :: jsval
  issue_labels :: "string list"
  issue_assignees :: "string list"
  issue_milestone :: "int option"

text \<open>
  The argument of \<^verbatim>\<open>octokit.rest.issues.create\<close>: a field that the code does not set on
  the payload object is \<open>None\<close>.
\<close>

record create_payload =
  p_owner :: string
  p_repo :: string
  p_title :: string
  p_body :: jsval
  p_labels :: "string list option"
  p_assignees :: "string list option"
  p_milestone :: "int option"

text \<open>
  The client is a parameter of every function that calls the API. Each operation reads and
  updates a remote state \<open>'r\<close> of which nothing is assumed, and answers with a rejection or
  a result. \<^verbatim>\<open>checkCollaborator\<close> answers \<open>None\<close> when the promise resolves.
\<close>

record 'r octokit =
  repos_checkCollaborator :: "string \<Rightarrow> string \<Rightarrow> string \<Rightarrow> 'r \<Rightarrow> remote_error option \<times> 'r"
  issues_listMilestones :: "string \<Rightarrow> string \<Rightarrow> 'r \<Rightarrow> (remote_error + milestone_data list) \<times> 'r"
  issues_create :: "create_payload \<Rightarrow> 'r \<Rightarrow> (remote_error + issue_response) \<times> 'r"

text \<open>
  Everything the importer does to the outside is an event of the trace, in the order it
  happens: the three remote calls (the collaborator check with its answer), the pause
  between two creations, and the calls of the \<^verbatim>\<open>@actions/core\<close> logger. A message is the
  text of the source without the pictograph that starts it.

  The world also holds what the engine does with an integer beyond \<open>2^53\<close>, where
  \<^verbatim>\<open>parseInt\<close> rounds to a double and \<^verbatim>\<open>toString\<close> prints the shortest digits that read
  back as that double: \<open>prints_back w n\<close> says whether printing the double nearest to
  \<open>n\<close> gives the decimal numeral of \<open>n\<close>. Nothing is assumed of it and no function changes
  it; where it holds, the number is identified with the numeral it prints.
\<close>

datatype event =
    CheckCollaborator string string string "remote_error option"
  | ListMilestones string string
  | IssuesCreate create_payload
  | Delay nat
  | Debug string
  | Info string
  | Warning string
  | LogError string
  | StartGroup string
  | EndGroup
  | SetOutput string string
  | SetFailed string

record 'r world =
  remote :: 'r
  trace :: "event list"
  prints_back :: "int \<Rightarrow> bool"

definition emit :: "event \<Rightarrow> 'r world \<Rightarrow> 'r world" where
  "emit e w = w\<lparr>trace := trace w @ [e]\<rparr>"

definition emits :: "event list \<Rightarrow> 'r world \<Rightarrow> 'r world" where
  "emits es w = w\<lparr>trace := trace w @ es\<rparr>"

fun is_remote_call :: "event \<Rightarrow> bool" where
  "is_remote_call (CheckCollaborator ow rp u a) = True"
| "is_remote_call (ListMilestones ow rp) = True"
| "is_remote_call (IssuesCreate p) = True"
| "is_remote_call e = False"

section \<open>\<^verbatim>\<open>validateAssignees\<close>\<close>

fun validateAssignees_loop ::
  "'r octokit \<Rightarrow> github_context \<Rightarrow> string list \<Rightarrow> string list \<Rightarrow> 'r world \<Rightarrow> string list \<times> 'r world" where
  "validateAssignees_loop octokit context [] validAssignees w = (validAssignees, w)"
| "validateAssignees_loop octokit context (assignee # rest) validAssignees w =
     (case repos_checkCollaborator octokit (owner context) (repo context) assignee (remote w) of
        (None, r') \<Rightarrow>
          validateAssignees_loop octokit context rest (validAssignees @ [assignee])
            (emits [CheckCollaborator (owner context) (repo context) assignee None,
                    Debug (''Assignee '' @ squote assignee @ '' is valid'')]
               (w\<lparr>remote := r'\<rparr>))
      | (Some error, r') \<Rightarrow>
          validateAssignees_loop octokit context rest validAssignees
            (emits [CheckCollaborator (owner context) (repo context) assignee (Some error),
                    (if re_status error = Some 404
                     then Warning (''Assignee '' @ squote assignee
                            @ '' is not a collaborator of this repository. Skipping.'')
                     else Warning (''Could not validate assignee '' @ squote assignee @ '': ''
                            @ tmpl (re_message error) @ ''. Skipping.''))]
               (w\<lparr>remote := r'\<rparr>)))"

text \<open>The argument is \<open>None\<close> for \<^verbatim>\<open>null\<close> or \<^verbatim>\<open>undefined\<close>.\<close>

definition validateAssignees ::
  "'r octokit \<Rightarrow> github_context \<Rightarrow> string list option \<Rightarrow> 'r world \<Rightarrow> string list \<times> 'r world" where
  "validateAssignees octokit context assignees w =
     (case assignees of
        None \<Rightarrow> ([], w)
      | Some candidates \<Rightarrow>
          if length candidates = 0 then ([], w)
          else validateAssignees_loop octokit context candidates [] w)"

section \<open>Milestones: \<^verbatim>\<open>getMilestoneMapping\<close> and \<^verbatim>\<open>resolveMilestone\<close>\<close>

text \<open>
  The \<^verbatim>\<open>Map\<close> of milestone titles to numbers is an association list with one entry for
  each title; \<^verbatim>\<open>set\<close> is \<open>AList.update\<close>, \<^verbatim>\<open>get\<close> is \<open>map_of\<close>, \<^verbatim>\<open>size\<close> is the length.
\<close>

type_synonym milestone_map = "(string \<times> int) list"

definition getMilestoneMapping ::
  "'r octokit \<Rightarrow> github_context \<Rightarrow> 'r world \<Rightarrow> milestone_map \<times> 'r world" where
  "getMilestoneMapping octokit context w =
     (case issues_listMilestones octokit (owner context) (repo context) (remote w) of
        (Inr data, r') \<Rightarrow>
          (let milestoneMap = fold (\<lambda>m mp. AList.update (ms_title m) (ms_number m) mp) data []
           in (milestoneMap,
               emits [ListMilestones (owner context) (repo context),
                      Info (''Found '' @ Number_toString (int (length milestoneMap))
                            @ '' milestones in repository'')]
                 (w\<lparr>remote := r'\<rparr>)))
      | (Inl error, r') \<Rightarrow>
          ([], emits [ListMilestones (owner context) (repo context),
                      Warning (''Failed to fetch milestones: '' @ tmpl (re_message error))]
                 (w\<lparr>remote := r'\<rparr>)))"

text \<open>\<^verbatim>\<open>milestoneMap.has(milestone)\<close>: the keys are strings, so only a string is ever found.\<close>

fun map_lookup :: "milestone_map \<Rightarrow> jsval \<Rightarrow> int option" where
  "map_lookup milestoneMap (JStr s) = map_of milestoneMap s"
| "map_lookup milestoneMap v = None"

text \<open>
  The test \<^verbatim>\<open>!isNaN(parsed) && parsed.toString() === milestone.toString()\<close> on the string
  of the reference, and the number \<^verbatim>\<open>parsed\<close> when it holds. Printing a number never gives
  a string that is not the decimal numeral of the integer it denotes, so the test fails
  on every such string; on the numeral of an integer up to \<open>2^53\<close> it holds; on a numeral
  beyond, it is what the engine makes it.
\<close>

definition round_trip :: "'r world \<Rightarrow> string \<Rightarrow> int option" where
  "round_trip w str =
     (case parseInt str of
        None \<Rightarrow> None
      | Some parsed \<Rightarrow>
          if Number_toString parsed = str \<and> (safe_integer parsed \<or> prints_back w parsed)
          then Some parsed else None)"

text \<open>
  The result is \<open>Inr None\<close> for \<^verbatim>\<open>null\<close>. After the test for a number, \<^verbatim>\<open>parseInt\<close>
  converts the reference to a string, which throws on some objects; \<^verbatim>\<open>milestone.toString()\<close>
  is that same string.
\<close>

definition not_found_warning :: "string \<Rightarrow> event" where
  "not_found_warning str =
     Warning (''Milestone '' @ dquote str
              @ '' not found in repository. Issue will be created without milestone.'')"

definition resolveMilestone ::
  "jsval \<Rightarrow> milestone_map \<Rightarrow> 'r world \<Rightarrow> (js_error + int option) \<times> 'r world" where
  "resolveMilestone milestone milestoneMap w =
     (if \<not> truthy milestone then (Inr None, w)
      else case milestone of
          JNum n \<Rightarrow> (Inr (Some n), w)
        | _ \<Rightarrow>
            (case js_ToString milestone of
               None \<Rightarrow> (Inl cannot_convert, w)
             | Some str \<Rightarrow>
                 (case round_trip w str of
                    Some parsed \<Rightarrow> (Inr (Some parsed), w)
                  | None \<Rightarrow>
                      (case map_lookup milestoneMap milestone of
                         Some number \<Rightarrow> (Inr (Some number), w)
                       | None \<Rightarrow> (Inr None, emit (not_found_warning str) w)))))"

section \<open>\<^verbatim>\<open>validateIssue\<close>\<close>

fun is_string :: "jsval \<Rightarrow> bool" where
  "is_string (JStr s) = True"
| "is_string v = False"

fun string_of :: "jsval \<Rightarrow> string" where
  "string_of (JStr s) = s"
| "string_of v = []"

text \<open>\<^verbatim>\<open>a || b\<close>\<close>

definition js_or :: "jsval \<Rightarrow> jsval \<Rightarrow> jsval" where
  "js_or a b = (if truthy a then a else b)"

definition validateIssue ::
  "'r octokit \<Rightarrow> github_context \<Rightarrow> jsval \<Rightarrow> nat \<Rightarrow> milestone_map \<Rightarrow> 'r world
     \<Rightarrow> (js_error + normalized_issue) \<times> 'r world" where
  "validateIssue octokit context issue index milestoneMap w =
     (case getProp issue ''title'' of
        Inl e \<Rightarrow> (Inl e, w)
      | Inr title \<Rightarrow>
          if \<not> truthy title \<or> \<not> is_string title \<or> trim (string_of title) = []
          then (Inl (Error (''Issue at index '' @ Number_toString (int index)
                       @ '' is missing a valid title'')), w)
          else
            (let parsedAssignees = parseAssignees (readProp issue ''assignees'')
             in case validateAssignees octokit context (Some parsedAssignees) w of
               (validAssignees, w1) \<Rightarrow>
                 (case resolveMilestone (readProp issue ''milestone'') milestoneMap w1 of
                    (Inl e, w2) \<Rightarrow> (Inl e, w2)
                  | (Inr milestone, w2) \<Rightarrow>
                      (Inr \<lparr>issue_title = trim (string_of title),
                            issue_body = js_or (readProp issue ''body'')
                                           (js_or (readProp issue ''description'') (JStr [])),
                            issue_labels = parseLabels (readProp issue ''labels''),
                            issue_assignees = validAssignees,
                            issue_milestone = milestone\<rparr>, w2))))"

section \<open>\<^verbatim>\<open>createIssue\<close>\<close>

text \<open>
  The three results: \<^verbatim>\<open>{status: 'created', title, number, url}\<close>,
  \<^verbatim>\<open>{status: 'dry-run', title, number: 'DRY-RUN'}\<close> and \<^verbatim>\<open>{status: 'failed', title, error}\<close>.
  The title of a failed record is whatever the record holds; its error is \<open>None\<close> when the
  rejection has no message.
\<close>

datatype outcome =
    Created string int string
  | DryRun string
  | Failed jsval "string option"

definition none_if_empty :: "string \<Rightarrow> string" where
  "none_if_empty s = (if s = [] then ''None'' else s)"

definition milestone_or_none :: "int option \<Rightarrow> string" where
  "milestone_or_none m =
     (case m of None \<Rightarrow> ''None'' | Some n \<Rightarrow> if n = 0 then ''None'' else Number_toString n)"

definition issuePayload :: "github_context \<Rightarrow> normalized_issue \<Rightarrow> create_payload" where
  "issuePayload context issue =
     \<lparr>p_owner = owner context,
      p_repo = repo context,
      p_title = issue_title issue,
      p_body = issue_body issue,
      p_labels = (if length (issue_labels issue) > 0 then Some (issue_labels issue) else None),
      p_assignees =
        (if length (issue_assignees issue) > 0 then Some (issue_assignees issue) else None),
      p_milestone =
        (case issue_milestone issue of
           None \<Rightarrow> None
         | Some n \<Rightarrow> if n \<noteq> 0 then Some n else None)\<rparr>"

text \<open>\<^verbatim>\<open>err.message || 'Validation failed'\<close>\<close>

definition field_error_text :: "field_error \<Rightarrow> string" where
  "field_error_text err =
     (case fe_message err of
        None \<Rightarrow> ''Validation failed''
      | Some m \<Rightarrow> if m = [] then ''Validation failed'' else m)"

definition format_field_error :: "field_error \<Rightarrow> string" where
  "format_field_error err =
     tmpl (fe_field err) @ '': '' @ tmpl (fe_code err) @ '' - '' @ field_error_text err"

definition createErrorMessage :: "remote_error \<Rightarrow> string option" where
  "createErrorMessage error =
     (case re_errors error of
        Some errors \<Rightarrow>
          if re_status error = Some 422
          then Some (''Validation Failed: '' @ join ''; '' (map format_field_error errors))
          else re_message error
      | None \<Rightarrow> re_message error)"

definition createIssue ::
  "'r octokit \<Rightarrow> github_context \<Rightarrow> normalized_issue \<Rightarrow> bool \<Rightarrow> 'r world \<Rightarrow> outcome \<times> 'r world" where
  "createIssue octokit context issue dryRun w =
     (if dryRun then
        (DryRun (issue_title issue),
         emits [Info (''[DRY RUN] Would create issue: '' @ dquote (issue_title issue)),
                Info (''  Labels: '' @ none_if_empty (join '', '' (issue_labels issue))),
                Info (''  Assignees: '' @ none_if_empty (join '', '' (issue_assignees issue))),
                Info (''  Milestone: '' @ milestone_or_none (issue_milestone issue))] w)
      else
        (let payload = issuePayload context issue
         in case issues_create octokit payload (remote w) of
            (Inr response, r') \<Rightarrow>
              (Created (issue_title issue) (resp_number response) (resp_html_url response),
               emits [IssuesCreate payload,
                      Info (''Created issue #'' @ Number_toString (resp_number response) @ '': ''
                            @ dquote (issue_title issue))]
                 (w\<lparr>remote := r'\<rparr>))
          | (Inl error, r') \<Rightarrow>
              (let errorMessage = createErrorMessage error
               in (Failed (JStr (issue_title issue)) errorMessage,
                   emits ([IssuesCreate payload,
                           LogError (''Failed to create issue '' @ dquote (issue_title issue)
                                     @ '': '' @ tmpl errorMessage)]
                          @ (case re_documentation_url error of
                               None \<Rightarrow> []
                             | Some url \<Rightarrow> if url = [] then [] else [LogError (''See: '' @ url)]))
                     (w\<lparr>remote := r'\<rparr>)))))"

section \<open>\<^verbatim>\<open>run\<close>\<close>

text \<open>
  \<^verbatim>\<open>run\<close> starts by reading the inputs and the file; the model starts where the records
  have been parsed, and takes them and the dry-run flag as arguments. The variables of
  the loop are a record.
\<close>

record 'r run_state =
  results :: "outcome list"
  successCount :: nat
  failureCount :: nat
  world :: "'r world"

text \<open>\<^verbatim>\<open>issues[i]?.title || 'Unknown'\<close>\<close>

definition title_or_unknown :: "jsval \<Rightarrow> jsval" where
  "title_or_unknown issue =
     js_or (case issue of JUndefined \<Rightarrow> JUndefined | JNull \<Rightarrow> JUndefined
            | _ \<Rightarrow> readProp issue ''title'')
           (JStr ''Unknown'')"

fun is_success :: "outcome \<Rightarrow> bool" where
  "is_success (Created t n u) = True"
| "is_success (DryRun t) = True"
| "is_success (Failed t e) = False"

text \<open>The body of the loop, for the record at index \<open>i\<close> (which is below the length).\<close>

definition run_iteration ::
  "'r octokit \<Rightarrow> github_context \<Rightarrow> jsval list \<Rightarrow> milestone_map \<Rightarrow> bool \<Rightarrow> nat \<Rightarrow> 'r run_state
     \<Rightarrow> 'r run_state" where
  "run_iteration octokit context issues milestoneMap dryRun i st =
     (case validateIssue octokit context (issues ! i) i milestoneMap (world st) of
        (Inr validatedIssue, w1) \<Rightarrow>
          (case createIssue octokit context validatedIssue dryRun w1 of
             (result, w2) \<Rightarrow>
               \<lparr>results = results st @ [result],
                successCount = (if is_success result then successCount st + 1 else successCount st),
                failureCount = (if is_success result then failureCount st else failureCount st + 1),
                world = (if \<not> dryRun \<and> i < length issues - 1 then emit (Delay 100) w2 else w2)\<rparr>)
      | (Inl error, w1) \<Rightarrow>
          \<lparr>results = results st
             @ [Failed (title_or_unknown (issues ! i)) (Some (error_message error))],
           successCount = successCount st,
           failureCount = failureCount st + 1,
           world = emit (LogError (''Failed to process issue at index '' @ Number_toString (int i)
                                   @ '': '' @ error_message error)) w1\<rparr>)"

function run_loop ::
  "'r octokit \<Rightarrow> github_context \<Rightarrow> jsval list \<Rightarrow> milestone_map \<Rightarrow> bool \<Rightarrow> nat \<Rightarrow> 'r run_state
     \<Rightarrow> 'r run_state" where
  "run_loop octokit context issues milestoneMap dryRun i st =
     (if i < length issues
      then run_loop octokit context issues milestoneMap dryRun (i + 1)
             (run_iteration octokit context issues milestoneMap dryRun i st)
      else st)"
  by pat_completeness auto
termination
  by (relation "measure (\<lambda>(octokit, context, issues, milestoneMap, dryRun, i, st). length issues - i)")
     auto

declare run_loop.simps [simp del]

text \<open>The variables of the loop before its first iteration.\<close>

definition initial_state :: "'r world \<Rightarrow> 'r run_state" where
  "initial_state w = \<lparr>results = [], successCount = 0, failureCount = 0, world = w\<rparr>"

text \<open>From the parsed records to the end of the loop.\<close>

definition run_records ::
  "'r octokit \<Rightarrow> github_context \<Rightarrow> jsval list \<Rightarrow> bool \<Rightarrow> 'r world \<Rightarrow> 'r run_state" where
  "run_records octokit context issues dryRun w =
     (case getMilestoneMapping octokit context
             (emit (Info (''Found '' @ Number_toString (int (length issues))
                          @ '' issues to import'')) w) of
        (milestoneMap, w1) \<Rightarrow>
          run_loop octokit context issues milestoneMap dryRun 0 (initial_state w1))"

definition summary_line :: "nat \<Rightarrow> nat \<Rightarrow> string" where
  "summary_line successes failures =
     ''Import completed: '' @ Number_toString (int successes) @ '' successful, ''
     @ Number_toString (int failures) @ '' failed''"

text \<open>
  One line of the detailed results (two when there is an error): the status pictograph is
  written as the status, and the title goes through a template literal, which throws on
  a title that has no string.
\<close>

fun result_lines :: "outcome \<Rightarrow> js_error + event list" where
  "result_lines (Created t n u) =
     Inr [Info (''created '' @ t @ '' '' @ (if n \<noteq> 0 then ''#'' @ Number_toString n else []))]"
| "result_lines (DryRun t) = Inr [Info (''dry-run '' @ t @ '' #DRY-RUN'')]"
| "result_lines (Failed t e) =
     (case js_ToString t of
        None \<Rightarrow> Inl cannot_convert
      | Some title \<Rightarrow>
          Inr (Info (''failed '' @ title @ '' '')
               # (case e of None \<Rightarrow> []
                  | Some m \<Rightarrow> if m = [] then [] else [Info (''   Error: '' @ m)])))"

fun log_results :: "outcome list \<Rightarrow> 'r world \<Rightarrow> js_error option \<times> 'r world" where
  "log_results [] w = (None, w)"
| "log_results (result # rest) w =
     (case result_lines result of
        Inl e \<Rightarrow> (Some e, w)
      | Inr lines \<Rightarrow> log_results rest (emits lines w))"

text \<open>
  From the summary to the end. An error thrown on the way reaches the handler of \<^verbatim>\<open>run\<close>,
  which reports \<^verbatim>\<open>Action failed\<close>.
\<close>

definition run_report :: "bool \<Rightarrow> 'r run_state \<Rightarrow> 'r world" where
  "run_report dryRun st =
     (let summary = summary_line (successCount st) (failureCount st);
          w1 = emits [Info summary,
                      SetOutput ''issues-created'' (Number_toString (int (successCount st))),
                      SetOutput ''issues-failed'' (Number_toString (int (failureCount st))),
                      SetOutput ''summary'' summary] (world st)
      in case (if length (results st) > 0
               then (case log_results (results st) (emit (StartGroup ''Import Results'') w1) of
                       (None, w2) \<Rightarrow> (None, emit EndGroup w2)
                     | (Some e, w2) \<Rightarrow> (Some e, w2))
               else (None, w1)) of
           (Some e, w3) \<Rightarrow> emit (SetFailed (''Action failed: '' @ error_message e)) w3
         | (None, w3) \<Rightarrow>
             if failureCount st > 0 \<and> \<not> dryRun
             then emit (SetFailed (Number_toString (int (failureCount st))
                                   @ '' issues failed to import'')) w3
             else w3)"

definition run :: "'r octokit \<Rightarrow> github_context \<Rightarrow> jsval list \<Rightarrow> bool \<Rightarrow> 'r world \<Rightarrow> 'r world" where
  "run octokit context issues dryRun w =
     (if length issues = 0
      then emit (SetFailed (''Action failed: '' @ ''No issues found in the input file'')) w
      else run_report dryRun (run_records octokit context issues dryRun w))"

section \<open>Notions used to state the properties\<close>

text \<open>The collaborator checks of a trace: who was asked, and whether the answer confirmed.\<close>

fun collaborator_checks :: "event list \<Rightarrow> (string \<times> bool) list" where
  "collaborator_checks [] = []"
| "collaborator_checks (CheckCollaborator ow rp u a # es) = (u, a = None) # collaborator_checks es"
| "collaborator_checks (e # es) = collaborator_checks es"

fun is_warning :: "event \<Rightarrow> bool" where
  "is_warning (Warning m) = True"
| "is_warning e = False"

fun is_set_failed :: "event \<Rightarrow> bool" where
  "is_set_failed (SetFailed m) = True"
| "is_set_failed e = False"

text \<open>
  A title that is missing (\<^verbatim>\<open>undefined\<close>), not a string, or blank: a string of white
  space only, the empty string among them.
\<close>

definition invalid_title :: "jsval \<Rightarrow> bool" where
  "invalid_title t = (case t of JStr s \<Rightarrow> list_all is_whitespace s | _ \<Rightarrow> True)"

text \<open>What one result adds to each of the two counters.\<close>

definition count_success :: "outcome \<Rightarrow> nat" where
  "count_success r = (if is_success r then 1 else 0)"

definition count_failure :: "outcome \<Rightarrow> nat" where
  "count_failure r = (if is_success r then 0 else 1)"

text \<open>The summary line and the three outputs, as \<^verbatim>\<open>run\<close> emits them after the loop.\<close>

definition outputs :: "nat \<Rightarrow> nat \<Rightarrow> event list" where
  "outputs successes failures =
     [Info (summary_line successes failures),
      SetOutput ''issues-created'' (Number_toString (int successes)),
      SetOutput ''issues-failed'' (Number_toString (int failures)),
      SetOutput ''summary'' (summary_line successes failures)]"

text \<open>The state of the loop of \<^verbatim>\<open>run\<close> when the first \<open>k\<close> records have been processed.\<close>

definition run_prefix ::
  "'r octokit \<Rightarrow> github_context \<Rightarrow> jsval list \<Rightarrow> milestone_map \<Rightarrow> bool \<Rightarrow> nat \<Rightarrow> 'r run_state
     \<Rightarrow> 'r run_state" where
  "run_prefix octokit context issues milestoneMap dryRun k st =
     foldl (\<lambda>s j. run_iteration octokit context issues milestoneMap dryRun j s) st [0..<k]"

text \<open>
  The words of the specification for the third rule of milestone resolution, ``a string
  whose entire content parses as an integer'': an optional sign and then decimal digits
  only, read as the integer they denote.
\<close>

definition whole_string_integer :: "string \<Rightarrow> int option" where
  "whole_string_integer s =
     (let unsigned = (if s \<noteq> [] \<and> (hd s = CHR ''-'' \<or> hd s = CHR ''+'') then tl s else s)
      in if unsigned \<noteq> [] \<and> list_all is_digit unsigned then parseInt s else None)"

section \<open>A concrete client and concrete records\<close>

definition not_found :: remote_error where
  "not_found =
     \<lparr>re_status = Some 404, re_message = Some ''Not Found'', re_errors = None,
      re_documentation_url = None\<rparr>"

definition unprocessable :: remote_error where
  "unprocessable =
     \<lparr>re_status = Some 422, re_message = Some ''Validation Failed'',
      re_errors = Some [\<lparr>fe_field = Some ''title'', fe_code = Some ''too_long'', fe_message = None\<rparr>,
                        \<lparr>fe_field = Some ''labels'', fe_code = Some ''custom'',
                         fe_message = Some ''bad label''\<rparr>],
      re_documentation_url = Some ''https://docs.github.com/rest''\<rparr>"

text \<open>
  Only \<^verbatim>\<open>alice\<close> is a collaborator, the repository has the milestone \<^verbatim>\<open>v1\<close> with number
  10, and the creation of an issue titled \<^verbatim>\<open>bad\<close> is rejected as unprocessable; the
  remote state counts the issues created.
\<close>

definition example_octokit :: "nat octokit" where
  "example_octokit =
     \<lparr>repos_checkCollaborator = (\<lambda>ow rp u r. (if u = ''alice'' then None else Some not_found, r)),
      issues_listMilestones = (\<lambda>ow rp r. (Inr [\<lparr>ms_title = ''v1'', ms_number = 10\<rparr>], r)),
      issues_create =
        (\<lambda>p r. if p_title p = ''bad'' then (Inl unprocessable, r)
                else (Inr \<lparr>resp_number = int r + 1,
                           resp_html_url = ''https://github.com/o/r/issues''\<rparr>, r + 1))\<rparr>"

definition example_context :: github_context where
  "example_context = \<lparr>owner = ''o'', repo = ''r''\<rparr>"

text \<open>
  At the start nothing has been created or logged. The engine of this world prints no
  integer beyond \<open>2^53\<close> back; the examples stay below.
\<close>

definition initial_world :: "nat world" where
  "initial_world = \<lparr>remote = 0, trace = [], prints_back = (\<lambda>n. False)\<rparr>"

definition example_issue :: normalized_issue where
  "example_issue =
     \<lparr>issue_title = ''T'', issue_body = JStr ''text'', issue_labels = [],
      issue_assignees = [''alice''], issue_milestone = Some 10\<rparr>"

definition bad_issue :: normalized_issue where
  "bad_issue =
     \<lparr>issue_title = ''bad'', issue_body = JStr [], issue_labels = [],
      issue_assignees = [], issue_milestone = None\<rparr>"

text \<open>Three records of which the second has no title.\<close>

definition example_records :: "jsval list" where
  "example_records =
     [JObj [(''title'', JStr ''A'')], JObj [(''body'', JStr ''x'')], JObj [(''title'', JStr ''C'')]]"

text \<open>Two valid records; the remote rejects the creation of the first.\<close>

definition rejected_records :: "jsval list" where
  "rejected_records = [JObj [(''title'', JStr ''bad'')], JObj [(''title'', JStr ''C'')]]"

text \<open>One record whose title is an object with a property \<^verbatim>\<open>toString\<close>.\<close>

definition unprintable_records :: "jsval list" where
  "unprintable_records = [JObj [(''title'', JObj [(''toString'', JNum 1)])]]"

section \<open>Properties of the world\<close>

lemma trace_emit: "trace (emit e w) = trace w @ [e]"
  by (simp add: emit_def)

lemma remote_emit: "remote (emit e w) = remote w"
  by (simp add: emit_def)

lemma trace_emits: "trace (emits es w) = trace w @ es"
  by (simp add: emits_def)

lemma remote_emits: "remote (emits es w) = remote w"
  by (simp add: emits_def)

lemmas world_simps = trace_emit remote_emit trace_emits remote_emits

section \<open>Properties of the normalizers\<close>

lemma split_where_not_Nil: "split_where P s \<noteq> []"
  by (induction s) (auto split: list.splits)

lemma split_comma_replace:
  "split_comma (replace_semicolons s) = split_where is_separator s"
  unfolding split_comma_def replace_semicolons_def
  by (induction s) (auto simp: is_separator_def split: list.splits)

lemma replace_swap: "replace_semicolons (swap_separators s) = replace_semicolons s"
  by (induction s) (auto simp: replace_semicolons_def swap_separators_def)

lemma parseAssignees_eq_parseLabels: "parseAssignees v = parseLabels v"
  by (simp add: parseAssignees_def parseLabels_def)

lemma parseLabels_string:
  "parseLabels (JStr s) = filter (\<lambda>p. p \<noteq> []) (map trim (split_where is_separator s))"
proof (cases "s = []")
  case True
  then show ?thesis by (simp add: parseLabels_def trim_def)
next
  case False
  then show ?thesis by (simp add: parseLabels_def split_comma_replace)
qed

lemma parseLabels_swap: "parseLabels (JStr (swap_separators s)) = parseLabels (JStr s)"
proof -
  have "swap_separators s = [] \<longleftrightarrow> s = []" by (simp add: swap_separators_def)
  then show ?thesis by (simp add: parseLabels_def replace_swap)
qed

lemma parseLabels_example1: "parseLabels (JStr ''a,b;c'') = [''a'', ''b'', ''c'']"
  by (simp add: parseLabels_string is_separator_def trim_def is_whitespace_def)

lemma parseLabels_example2: "parseLabels (JStr ''a;b,c'') = [''a'', ''b'', ''c'']"
  by (simp add: parseLabels_string is_separator_def trim_def is_whitespace_def)

lemma parseLabels_degenerate:
  "parseLabels JUndefined = []" "parseLabels JNull = []" "parseLabels (JStr []) = []"
  "parseLabels (JArr []) = []" "parseLabels (JBool b) = []" "parseLabels (JNum n) = []"
  "parseLabels (JObj kvs) = []"
  by (simp_all add: parseLabels_def)

text \<open>
  Claim C5. On a string, both normalizers cut at every comma and every semicolon alike,
  trim each piece and drop the empty ones; exchanging commas and semicolons in the input
  changes nothing; \<^verbatim>\<open>"a,b;c"\<close> and \<^verbatim>\<open>"a;b,c"\<close> both give \<^verbatim>\<open>["a","b","c"]\<close>; and
  \<^verbatim>\<open>undefined\<close>, \<^verbatim>\<open>null\<close>, the empty string, the empty array and every value that is neither
  a string nor an array (a boolean, a number, an object) give the empty sequence.
\<close>

theorem C5_normalizers:
  "parseLabels (JStr s) = filter (\<lambda>p. p \<noteq> []) (map trim (split_where is_separator s))
   \<and> parseAssignees (JStr s) = filter (\<lambda>p. p \<noteq> []) (map trim (split_where is_separator s))
   \<and> parseLabels (JStr (swap_separators s)) = parseLabels (JStr s)
   \<and> parseAssignees (JStr (swap_separators s)) = parseAssignees (JStr s)
   \<and> parseLabels (JStr ''a,b;c'') = [''a'', ''b'', ''c'']
   \<and> parseLabels (JStr ''a;b,c'') = [''a'', ''b'', ''c'']
   \<and> parseAssignees (JStr ''a,b;c'') = [''a'', ''b'', ''c'']
   \<and> parseAssignees (JStr ''a;b,c'') = [''a'', ''b'', ''c'']
   \<and> parseLabels JUndefined = [] \<and> parseAssignees JUndefined = []
   \<and> parseLabels JNull = [] \<and> parseAssignees JNull = []
   \<and> parseLabels (JStr []) = [] \<and> parseAssignees (JStr []) = []
   \<and> parseLabels (JArr []) = [] \<and> parseAssignees (JArr []) = []
   \<and> parseLabels (JBool b) = [] \<and> parseAssignees (JBool b) = []
   \<and> parseLabels (JNum n) = [] \<and> parseAssignees (JNum n) = []
   \<and> parseLabels (JObj kvs) = [] \<and> parseAssignees (JObj kvs) = []"
  unfolding parseAssignees_eq_parseLabels
  using parseLabels_string [of s] parseLabels_swap [of s]
    parseLabels_example1 parseLabels_example2 parseLabels_degenerate
  by simp

section \<open>Properties of \<^verbatim>\<open>createIssue\<close>\<close>

text \<open>
  Claim C8. With \<^verbatim>\<open>dryRun\<close> true, \<^verbatim>\<open>createIssue\<close> returns the dry-run result with the title
  of the issue, leaves the remote state as it is, adds no remote call to the trace (it
  adds information lines only), and does not depend on the client it is given.
\<close>

theorem C8_dry_run:
  "fst (createIssue octokit ctx issue True w) = DryRun (issue_title issue)
   \<and> remote (snd (createIssue octokit ctx issue True w)) = remote w
   \<and> filter is_remote_call (trace (snd (createIssue octokit ctx issue True w)))
       = filter is_remote_call (trace w)
   \<and> (\<exists>lines. trace (snd (createIssue octokit ctx issue True w)) = trace w @ map Info lines)
   \<and> createIssue octokit' ctx' issue True w = createIssue octokit ctx issue True w"
proof -
  let ?lines = "[''[DRY RUN] Would create issue: '' @ dquote (issue_title issue),
                 ''  Labels: '' @ none_if_empty (join '', '' (issue_labels issue)),
                 ''  Assignees: '' @ none_if_empty (join '', '' (issue_assignees issue)),
                 ''  Milestone: '' @ milestone_or_none (issue_milestone issue)]"
  have "trace (snd (createIssue octokit ctx issue True w)) = trace w @ map Info ?lines"
    by (simp add: createIssue_def world_simps)
  then have "\<exists>lines. trace (snd (createIssue octokit ctx issue True w)) = trace w @ map Info lines"
    by blast
  then show ?thesis
    by (simp add: createIssue_def world_simps)
qed

lemma createIssue_failure:
  assumes "issues_create octokit (issuePayload ctx issue) (remote w) = (Inl error, r')"
  shows "fst (createIssue octokit ctx issue False w)
         = Failed (JStr (issue_title issue)) (createErrorMessage error)"
  using assms by (simp add: createIssue_def Let_def)

lemma createIssue_success:
  assumes "issues_create octokit (issuePayload ctx issue) (remote w) = (Inr response, r')"
  shows "fst (createIssue octokit ctx issue False w)
         = Created (issue_title issue) (resp_number response) (resp_html_url response)"
  using assms by (simp add: createIssue_def Let_def)

lemma createIssue_trace:
  "\<exists>rest. trace (snd (createIssue octokit ctx issue False w))
            = trace w @ IssuesCreate (issuePayload ctx issue) # rest
          \<and> filter is_remote_call rest = []"
proof (cases "issues_create octokit (issuePayload ctx issue) (remote w)")
  case (Pair answer r')
  show ?thesis
  proof (cases answer)
    case (Inl error)
    let ?doc = "case re_documentation_url error of None \<Rightarrow> []
                | Some url \<Rightarrow> if url = [] then [] else [LogError (''See: '' @ url)]"
    let ?rest = "LogError (''Failed to create issue '' @ dquote (issue_title issue)
                           @ '': '' @ tmpl (createErrorMessage error)) # ?doc"
    have t: "trace (snd (createIssue octokit ctx issue False w))
             = trace w @ IssuesCreate (issuePayload ctx issue) # ?rest"
      by (simp add: createIssue_def Pair Inl Let_def world_simps)
    have f: "filter is_remote_call ?rest = []"
      by (simp split: option.split)
    show ?thesis
      by (rule exI [of _ ?rest]) (rule conjI [OF t f])
  next
    case (Inr response)
    let ?rest = "[Info (''Created issue #'' @ Number_toString (resp_number response) @ '': ''
                            @ dquote (issue_title issue))]"
    have t: "trace (snd (createIssue octokit ctx issue False w))
             = trace w @ IssuesCreate (issuePayload ctx issue) # ?rest"
      by (simp add: createIssue_def Pair Inr Let_def world_simps)
    have f: "filter is_remote_call ?rest = []"
      by simp
    show ?thesis
      by (rule exI [of _ ?rest]) (rule conjI [OF t f])
  qed
qed

lemma createIssue_remote:
  "remote (snd (createIssue octokit ctx issue False w))
     = snd (issues_create octokit (issuePayload ctx issue) (remote w))"
proof (cases "issues_create octokit (issuePayload ctx issue) (remote w)")
  case (Pair answer r')
  then show ?thesis
    by (cases answer) (simp_all add: createIssue_def Let_def world_simps)
qed

text \<open>
  Claim C9. Without dry run, \<^verbatim>\<open>createIssue\<close> makes one remote call, the creation, with
  the payload \<open>issuePayload\<close>. The payload has the title and the body of the issue, the
  labels exactly when there is one, the assignees exactly when there is one (so never an
  empty list), and a milestone only when the issue has one, which it then is; a milestone
  other than 0 is always sent.
\<close>

theorem C9_payload:
  "(\<exists>rest. trace (snd (createIssue octokit ctx issue False w))
             = trace w @ IssuesCreate (issuePayload ctx issue) # rest
           \<and> filter is_remote_call rest = [])
   \<and> remote (snd (createIssue octokit ctx issue False w))
       = snd (issues_create octokit (issuePayload ctx issue) (remote w))
   \<and> p_title (issuePayload ctx issue) = issue_title issue
   \<and> p_body (issuePayload ctx issue) = issue_body issue
   \<and> p_labels (issuePayload ctx issue)
       = (if issue_labels issue = [] then None else Some (issue_labels issue))
   \<and> p_assignees (issuePayload ctx issue)
       = (if issue_assignees issue = [] then None else Some (issue_assignees issue))
   \<and> p_labels (issuePayload ctx issue) \<noteq> Some []
   \<and> p_assignees (issuePayload ctx issue) \<noteq> Some []
   \<and> (p_milestone (issuePayload ctx issue) \<noteq> None
        \<longrightarrow> issue_milestone issue = p_milestone (issuePayload ctx issue))
   \<and> (\<forall>n. issue_milestone issue = Some n \<and> n \<noteq> 0
        \<longrightarrow> p_milestone (issuePayload ctx issue) = Some n)"
proof -
  have m1: "p_milestone (issuePayload ctx issue) \<noteq> None
        \<longrightarrow> issue_milestone issue = p_milestone (issuePayload ctx issue)"
    by (simp add: issuePayload_def split: option.splits)
  have m2: "\<forall>n. issue_milestone issue = Some n \<and> n \<noteq> 0
        \<longrightarrow> p_milestone (issuePayload ctx issue) = Some n"
    by (simp add: issuePayload_def)
  have l: "p_labels (issuePayload ctx issue)
       = (if issue_labels issue = [] then None else Some (issue_labels issue))"
    by (simp add: issuePayload_def)
  have a: "p_assignees (issuePayload ctx issue)
       = (if issue_assignees issue = [] then None else Some (issue_assignees issue))"
    by (simp add: issuePayload_def)
  have t: "p_title (issuePayload ctx issue) = issue_title issue"
    by (simp add: issuePayload_def)
  have b: "p_body (issuePayload ctx issue) = issue_body issue"
    by (simp add: issuePayload_def)
  have l': "p_labels (issuePayload ctx issue) \<noteq> Some []"
    by (simp add: l)
  have a': "p_assignees (issuePayload ctx issue) \<noteq> Some []"
    by (simp add: a)
  show ?thesis
    by (intro conjI createIssue_trace createIssue_remote t b l a l' a' m1 m2)
qed

theorem C9_payload_witness:
  "p_labels (issuePayload example_context example_issue) = None
   \<and> p_assignees (issuePayload example_context example_issue) = Some [''alice'']
   \<and> p_milestone (issuePayload example_context example_issue) = Some 10
   \<and> issue_milestone example_issue = Some 10"
  using C9_payload [of example_octokit example_context example_issue initial_world]
  by (simp add: example_issue_def)

lemma format_field_error_eq:
  "format_field_error = (\<lambda>e. tmpl (fe_field e) @ '': '' @ tmpl (fe_code e) @ '' - ''
                                         @ field_error_text e)"
  by (rule ext) (simp add: format_field_error_def)

lemma createErrorMessage_422:
  "re_status error = Some 422 \<Longrightarrow> re_errors error = Some errors \<Longrightarrow>
     createErrorMessage error = Some (''Validation Failed: ''
        @ join ''; '' (map (\<lambda>e. tmpl (fe_field e) @ '': '' @ tmpl (fe_code e) @ '' - ''
                                         @ field_error_text e) errors))"
  by (simp add: createErrorMessage_def format_field_error_eq)

lemma createErrorMessage_other:
  "re_status error \<noteq> Some 422 \<or> re_errors error = None \<Longrightarrow>
     createErrorMessage error = re_message error"
  by (auto simp: createErrorMessage_def split: option.splits)

text \<open>
  Claim C7. Without dry run, when the remote creation is rejected, \<^verbatim>\<open>createIssue\<close> returns
  (it is a total function) the failed result with the title of the issue. For a rejection
  with status 422 and field-level errors the error message is \<^verbatim>\<open>Validation Failed: \<close>
  followed by \<^verbatim>\<open>field: code - message\<close> for each of them, joined with \<^verbatim>\<open>; \<close> (the
  message is \<^verbatim>\<open>Validation failed\<close> when the field error has none); for every other
  rejection it is the message of the rejection.
\<close>

theorem C7_remote_failure:
  "fst (issues_create octokit (issuePayload ctx issue) (remote w)) = Inl error \<longrightarrow>
     (\<exists>m. fst (createIssue octokit ctx issue False w) = Failed (JStr (issue_title issue)) m
        \<and> (\<forall>errors. re_status error = Some 422 \<and> re_errors error = Some errors \<longrightarrow>
              m = Some (''Validation Failed: ''
                    @ join ''; '' (map (\<lambda>e. tmpl (fe_field e) @ '': '' @ tmpl (fe_code e) @ '' - ''
                                         @ field_error_text e) errors)))
        \<and> (re_status error \<noteq> Some 422 \<or> re_errors error = None \<longrightarrow> m = re_message error))"
proof (rule impI)
  assume "fst (issues_create octokit (issuePayload ctx issue) (remote w)) = Inl error"
  then obtain r' where
    "issues_create octokit (issuePayload ctx issue) (remote w) = (Inl error, r')"
    by (cases "issues_create octokit (issuePayload ctx issue) (remote w)") simp
  then have f: "fst (createIssue octokit ctx issue False w)
         = Failed (JStr (issue_title issue)) (createErrorMessage error)"
    by (rule createIssue_failure)
  have g1: "\<forall>errors. re_status error = Some 422 \<and> re_errors error = Some errors \<longrightarrow>
      createErrorMessage error = Some (''Validation Failed: ''
                    @ join ''; '' (map (\<lambda>e. tmpl (fe_field e) @ '': '' @ tmpl (fe_code e) @ '' - ''
                                         @ field_error_text e) errors))"
    by (simp add: createErrorMessage_422)
  have g2: "re_status error \<noteq> Some 422 \<or> re_errors error = None
      \<longrightarrow> createErrorMessage error = re_message error"
    by (simp add: createErrorMessage_other)
  show "\<exists>m. fst (createIssue octokit ctx issue False w) = Failed (JStr (issue_title issue)) m
        \<and> (\<forall>errors. re_status error = Some 422 \<and> re_errors error = Some errors \<longrightarrow>
              m = Some (''Validation Failed: ''
                    @ join ''; '' (map (\<lambda>e. tmpl (fe_field e) @ '': '' @ tmpl (fe_code e) @ '' - ''
                                         @ field_error_text e) errors)))
        \<and> (re_status error \<noteq> Some 422 \<or> re_errors error = None \<longrightarrow> m = re_message error)"
    by (rule exI [where x = "createErrorMessage error"]) (intro conjI f g1 g2)
qed

theorem C7_remote_failure_witness:
  "fst (issues_create example_octokit (issuePayload example_context bad_issue) (remote initial_world))
     = Inl unprocessable
   \<and> fst (createIssue example_octokit example_context bad_issue False initial_world)
     = Failed (JStr ''bad'')
         (Some ''Validation Failed: title: too_long - Validation failed; labels: custom - bad label'')"
proof -
  have h: "fst (issues_create example_octokit (issuePayload example_context bad_issue) (remote initial_world))
     = Inl unprocessable"
    by (simp add: example_octokit_def issuePayload_def bad_issue_def)
  have s: "re_status unprocessable = Some 422 \<and>
    re_errors unprocessable = Some [\<lparr>fe_field = Some ''title'', fe_code = Some ''too_long'', fe_message = None\<rparr>,
                        \<lparr>fe_field = Some ''labels'', fe_code = Some ''custom'',
                         fe_message = Some ''bad label''\<rparr>]"
    by (simp add: unprocessable_def)
  obtain m where m1: "fst (createIssue example_octokit example_context bad_issue False initial_world)
          = Failed (JStr (issue_title bad_issue)) m"
    and m2: "\<forall>errors. re_status unprocessable = Some 422 \<and> re_errors unprocessable = Some errors \<longrightarrow>
              m = Some (''Validation Failed: ''
                    @ join ''; '' (map (\<lambda>e. tmpl (fe_field e) @ '': '' @ tmpl (fe_code e) @ '' - ''
                                         @ field_error_text e) errors))"
    using C7_remote_failure [of example_octokit example_context bad_issue initial_world unprocessable,
        THEN mp, OF h]
    by (elim exE conjE)
  have "m = Some (''Validation Failed: ''
                    @ join ''; '' (map (\<lambda>e. tmpl (fe_field e) @ '': '' @ tmpl (fe_code e) @ '' - ''
                                         @ field_error_text e)
                       [\<lparr>fe_field = Some ''title'', fe_code = Some ''too_long'', fe_message = None\<rparr>,
                        \<lparr>fe_field = Some ''labels'', fe_code = Some ''custom'',
                         fe_message = Some ''bad label''\<rparr>]))"
    using m2 [rule_format, OF s] .
  then have "m = Some ''Validation Failed: title: too_long - Validation failed; labels: custom - bad label''"
    by (simp add: tmpl_def field_error_text_def)
  with m1 h show ?thesis
    by (simp add: bad_issue_def)
qed

section \<open>Properties of \<^verbatim>\<open>validateAssignees\<close>\<close>

lemma collaborator_checks_append:
  "collaborator_checks (xs @ ys) = collaborator_checks xs @ collaborator_checks ys"
  by (induction xs rule: collaborator_checks.induct) simp_all

lemma validateAssignees_loop_spec:
  "\<exists>new. trace (snd (validateAssignees_loop octokit ctx cs acc w)) = trace w @ new
     \<and> map fst (collaborator_checks new) = cs
     \<and> fst (validateAssignees_loop octokit ctx cs acc w)
         = acc @ map fst (filter snd (collaborator_checks new))
     \<and> length (filter is_warning new) + length (filter snd (collaborator_checks new)) = length cs
     \<and> length (filter is_remote_call new) = length cs"
proof (induction cs arbitrary: acc w)
  case Nil
  show ?case by (rule exI [of _ "[]"]) simp
next
  case (Cons c cs)
  obtain a r' where ans: "repos_checkCollaborator octokit (owner ctx) (repo ctx) c (remote w) = (a, r')"
    by (cases "repos_checkCollaborator octokit (owner ctx) (repo ctx) c (remote w)")
  show ?case
  proof (cases a)
    case None
    define evs where "evs = [CheckCollaborator (owner ctx) (repo ctx) c None,
                             Debug (''Assignee '' @ squote c @ '' is valid'')]"
    define w1 where "w1 = emits evs (w\<lparr>remote := r'\<rparr>)"
    have step: "validateAssignees_loop octokit ctx (c # cs) acc w
                = validateAssignees_loop octokit ctx cs (acc @ [c]) w1"
      by (simp add: ans None evs_def w1_def)
    from Cons.IH [of "acc @ [c]" w1] obtain new where
      n1: "trace (snd (validateAssignees_loop octokit ctx cs (acc @ [c]) w1)) = trace w1 @ new"
      and n2: "map fst (collaborator_checks new) = cs"
      and n3: "fst (validateAssignees_loop octokit ctx cs (acc @ [c]) w1)
                 = (acc @ [c]) @ map fst (filter snd (collaborator_checks new))"
      and n4: "length (filter is_warning new) + length (filter snd (collaborator_checks new)) = length cs"
      and n5: "length (filter is_remote_call new) = length cs"
      by (elim exE conjE)
    have t: "trace w1 = trace w @ evs" by (simp add: w1_def world_simps)
    have e: "collaborator_checks evs = [(c, True)]" "filter is_warning evs = []"
      "length (filter is_remote_call evs) = 1"
      by (simp_all add: evs_def)
    show ?thesis
      unfolding step
      by (rule exI [of _ "evs @ new"])
         (simp add: n1 n2 n3 n4 n5 t e collaborator_checks_append)
  next
    case (Some error)
    define warn where "warn = (if re_status error = Some 404
                 then Warning (''Assignee '' @ squote c
                        @ '' is not a collaborator of this repository. Skipping.'')
                 else Warning (''Could not validate assignee '' @ squote c @ '': ''
                        @ tmpl (re_message error) @ ''. Skipping.''))"
    define evs where "evs = [CheckCollaborator (owner ctx) (repo ctx) c (Some error), warn]"
    define w1 where "w1 = emits evs (w\<lparr>remote := r'\<rparr>)"
    have step: "validateAssignees_loop octokit ctx (c # cs) acc w
                = validateAssignees_loop octokit ctx cs acc w1"
      by (simp add: ans Some evs_def w1_def warn_def)
    from Cons.IH [of acc w1] obtain new where
      n1: "trace (snd (validateAssignees_loop octokit ctx cs acc w1)) = trace w1 @ new"
      and n2: "map fst (collaborator_checks new) = cs"
      and n3: "fst (validateAssignees_loop octokit ctx cs acc w1)
                 = acc @ map fst (filter snd (collaborator_checks new))"
      and n4: "length (filter is_warning new) + length (filter snd (collaborator_checks new)) = length cs"
      and n5: "length (filter is_remote_call new) = length cs"
      by (elim exE conjE)
    have t: "trace w1 = trace w @ evs" by (simp add: w1_def world_simps)
    have w: "is_warning warn" "\<not> is_remote_call warn" "collaborator_checks [warn] = []"
      by (simp_all add: warn_def)
    have e: "collaborator_checks evs = [(c, False)]" "length (filter is_warning evs) = 1"
      "length (filter is_remote_call evs) = 1"
      using w by (simp_all add: evs_def)
    show ?thesis
      unfolding step
      by (rule exI [of _ "evs @ new"])
         (simp add: n1 n2 n3 n4 n5 t e collaborator_checks_append)
  qed
qed

lemma validateAssignees_loop_constant:
  assumes "\<forall>u r. repos_checkCollaborator octokit (owner ctx) (repo ctx) u r = (answer u, r)"
  shows "fst (validateAssignees_loop octokit ctx cs acc w) = acc @ filter (\<lambda>u. answer u = None) cs"
proof (induction cs arbitrary: acc w)
  case Nil
  show ?case by simp
next
  case (Cons c cs)
  have ans: "repos_checkCollaborator octokit (owner ctx) (repo ctx) c (remote w) = (answer c, remote w)"
    using assms by simp
  show ?case
    by (cases "answer c") (simp_all add: ans Cons.IH)
qed

lemma subseq_confirmed: "subseq (map fst (filter snd xs)) (map fst xs)"
  by (intro subseq_map subseq_filter_left)

lemma validateAssignees_Some:
  "validateAssignees octokit ctx (Some cs) w = validateAssignees_loop octokit ctx cs [] w"
  by (cases cs) (simp_all add: validateAssignees_def)

text \<open>
  Claim C6. For an absent or empty candidate sequence \<^verbatim>\<open>validateAssignees\<close> returns the
  empty sequence and leaves the world as it is: no remote query. For candidates \<open>cs\<close> it
  asks the remote once for each candidate, in order, and makes no other remote call; it
  returns exactly the candidates whose check confirmed, in the order of the input (a
  subsequence of it), and logs one warning for each candidate it drops. When the answer
  of the remote depends on the user name only, the result is the input filtered by it.
\<close>

theorem C6_validateAssignees:
  "validateAssignees octokit ctx None w = ([], w)
   \<and> validateAssignees octokit ctx (Some []) w = ([], w)
   \<and> (\<exists>new. trace (snd (validateAssignees octokit ctx (Some cs) w)) = trace w @ new
         \<and> map fst (collaborator_checks new) = cs
         \<and> fst (validateAssignees octokit ctx (Some cs) w)
             = map fst (filter snd (collaborator_checks new))
         \<and> length (filter is_warning new)
             = length cs - length (fst (validateAssignees octokit ctx (Some cs) w))
         \<and> length (filter is_remote_call new) = length cs)
   \<and> subseq (fst (validateAssignees octokit ctx (Some cs) w)) cs
   \<and> ((\<forall>u r. repos_checkCollaborator octokit (owner ctx) (repo ctx) u r = (answer u, r))
        \<longrightarrow> fst (validateAssignees octokit ctx (Some cs) w) = filter (\<lambda>u. answer u = None) cs)"
proof -
  have a: "validateAssignees octokit ctx None w = ([], w)"
    by (simp add: validateAssignees_def)
  have b: "validateAssignees octokit ctx (Some []) w = ([], w)"
    by (simp add: validateAssignees_def)
  obtain new where
    n1: "trace (snd (validateAssignees_loop octokit ctx cs [] w)) = trace w @ new"
    and n2: "map fst (collaborator_checks new) = cs"
    and n3: "fst (validateAssignees_loop octokit ctx cs [] w)
               = [] @ map fst (filter snd (collaborator_checks new))"
    and n4: "length (filter is_warning new) + length (filter snd (collaborator_checks new)) = length cs"
    and n5: "length (filter is_remote_call new) = length cs"
    using validateAssignees_loop_spec [of octokit ctx cs "[]" w] by (elim exE conjE)
  have r: "fst (validateAssignees octokit ctx (Some cs) w)
             = map fst (filter snd (collaborator_checks new))"
    using n3 by (simp add: validateAssignees_Some)
  have n4': "length (filter is_warning new)
             = length cs - length (fst (validateAssignees octokit ctx (Some cs) w))"
    using n4 by (simp add: r)
  have c: "\<exists>new. trace (snd (validateAssignees octokit ctx (Some cs) w)) = trace w @ new
         \<and> map fst (collaborator_checks new) = cs
         \<and> fst (validateAssignees octokit ctx (Some cs) w)
             = map fst (filter snd (collaborator_checks new))
         \<and> length (filter is_warning new)
             = length cs - length (fst (validateAssignees octokit ctx (Some cs) w))
         \<and> length (filter is_remote_call new) = length cs"
    using n1 n2 r n4' n5 unfolding validateAssignees_Some by (intro exI [of _ new] conjI)
  have d: "subseq (fst (validateAssignees octokit ctx (Some cs) w)) cs"
    using subseq_confirmed [of "collaborator_checks new"] by (simp add: r n2)
  have e: "(\<forall>u r. repos_checkCollaborator octokit (owner ctx) (repo ctx) u r = (answer u, r))
        \<longrightarrow> fst (validateAssignees octokit ctx (Some cs) w) = filter (\<lambda>u. answer u = None) cs"
    using validateAssignees_loop_constant [of octokit ctx answer cs "[]" w]
    by (simp add: validateAssignees_Some)
  show ?thesis
    by (intro conjI a b c d e)
qed

theorem C6_validateAssignees_witness:
  "(\<forall>u r. repos_checkCollaborator example_octokit (owner example_context) (repo example_context) u r
            = ((if u = ''alice'' then None else Some not_found), r))
   \<and> fst (validateAssignees example_octokit example_context (Some [''alice'', ''bob'']) initial_world)
       = [''alice'']"
proof -
  have h: "\<forall>u r. repos_checkCollaborator example_octokit (owner example_context) (repo example_context) u r
            = ((if u = ''alice'' then None else Some not_found), r)"
    by (simp add: example_octokit_def)
  have "fst (validateAssignees example_octokit example_context (Some [''alice'', ''bob'']) initial_world)
        = filter (\<lambda>u. (if u = ''alice'' then None else Some not_found) = None) [''alice'', ''bob'']"
    using C6_validateAssignees [of example_octokit example_context initial_world "[''alice'', ''bob'']"
        "\<lambda>u. if u = ''alice'' then None else Some not_found"] h
    by (elim conjE) (erule mp, assumption)
  then show ?thesis using h by simp
qed

section \<open>Properties of \<^verbatim>\<open>validateIssue\<close>\<close>

lemma all_dropWhile_iff: "(\<forall>x\<in>set (dropWhile P s). P x) \<longleftrightarrow> (\<forall>x\<in>set s. P x)"
  by (induction s) auto

lemma trim_empty_iff: "trim s = [] \<longleftrightarrow> list_all is_whitespace s"
  by (simp add: trim_def list_all_iff all_dropWhile_iff)

lemma invalid_title_iff:
  "invalid_title t \<longleftrightarrow> \<not> truthy t \<or> \<not> is_string t \<or> trim (string_of t) = []"
  by (cases t) (auto simp: invalid_title_def trim_empty_iff)

lemma validateIssue_invalid_title:
  "getProp issue ''title'' = Inr t \<Longrightarrow> invalid_title t \<Longrightarrow>
     validateIssue octokit ctx issue index milestoneMap w
       = (Inl (Error (''Issue at index '' @ Number_toString (int index)
                      @ '' is missing a valid title'')), w)"
  by (simp add: validateIssue_def invalid_title_iff)

text \<open>
  Claim C4. For a record whose title is missing, not a string or blank, \<^verbatim>\<open>validateIssue\<close>
  throws the error \<^verbatim>\<open>Issue at index i is missing a valid title\<close>, \<open>i\<close> being the position
  of the record, whatever the other fields are, and the world is as before: no remote
  call has been made and nothing has been logged.
\<close>

theorem C4_invalid_title:
  "getProp issue ''title'' = Inr t \<Longrightarrow> invalid_title t \<Longrightarrow>
     validateIssue octokit ctx issue index milestoneMap w
       = (Inl (Error (''Issue at index '' @ Number_toString (int index)
                      @ '' is missing a valid title'')), w)"
  by (rule validateIssue_invalid_title)

theorem C4_invalid_title_witness:
  "getProp (JObj [(''body'', JStr ''x''), (''assignees'', JStr ''alice'')]) ''title'' = Inr JUndefined
   \<and> invalid_title JUndefined
   \<and> validateIssue example_octokit example_context
        (JObj [(''body'', JStr ''x''), (''assignees'', JStr ''alice'')]) 1 [] initial_world
       = (Inl (Error ''Issue at index 1 is missing a valid title''), initial_world)"
proof -
  have g: "getProp (JObj [(''body'', JStr ''x''), (''assignees'', JStr ''alice'')]) ''title'' = Inr JUndefined"
    by simp
  have i: "invalid_title JUndefined" by (simp add: invalid_title_def)
  have n: "Number_toString 1 = ''1''"
    by (simp add: Number_toString_def nat_digits.simps digit_char_def)
  show ?thesis
    using C4_invalid_title [OF g i, of example_octokit example_context 1 "[]" initial_world] g i
    by (simp add: n)
qed

section \<open>Properties of numbers and strings\<close>

lemma digit_cases:
  "d < 10 \<Longrightarrow> d = 0 \<or> d = 1 \<or> d = 2 \<or> d = 3 \<or> d = 4 \<or> d = 5 \<or> d = 6 \<or> d = 7 \<or> d = 8 \<or> d = (9::nat)"
  by arith

lemma of_char_digit_char: "d < 10 \<Longrightarrow> of_char (digit_char d) = (48 + d :: nat)"
  by (drule digit_cases) (elim disjE; simp add: digit_char_def)

lemma is_digit_digit_char: "d < 10 \<Longrightarrow> is_digit (digit_char d)"
  by (simp add: is_digit_def of_char_digit_char)

lemma digit_val_digit_char: "d < 10 \<Longrightarrow> digit_val (digit_char d) = d"
  by (simp add: digit_val_def of_char_digit_char)

lemma is_digit_not_special:
  "is_digit c \<Longrightarrow> \<not> is_whitespace c \<and> c \<noteq> CHR ''-'' \<and> c \<noteq> CHR ''+''"
  by (auto simp: is_digit_def is_whitespace_def)

lemma nat_digits_all: "list_all is_digit (nat_digits n)"
  by (induction n rule: nat_digits.induct) (subst nat_digits.simps, simp add: is_digit_digit_char)

lemma nat_digits_not_Nil: "nat_digits n \<noteq> []"
  by (subst nat_digits.simps) simp

lemma digits_value_nat_digits: "digits_value (nat_digits n) = n"
  by (induction n rule: nat_digits.induct)
     (subst nat_digits.simps, simp add: digits_value_def digit_val_digit_char)

lemma takeWhile_all: "list_all P xs \<Longrightarrow> takeWhile P xs = xs"
  by (induction xs) auto

lemma takeWhile_nat_digits: "takeWhile is_digit (nat_digits n) = nat_digits n"
  using nat_digits_all takeWhile_all by blast

lemma parseInt_nat_digits: "parseInt (nat_digits n) = Some (int n)"
proof -
  obtain c cs where cs: "nat_digits n = c # cs"
    using nat_digits_not_Nil [of n] by (cases "nat_digits n") auto
  have "is_digit c" using nat_digits_all [of n] cs by simp
  then have c: "\<not> is_whitespace c" "c \<noteq> CHR ''-''" "c \<noteq> CHR ''+''"
    using is_digit_not_special by blast+
  have "takeWhile is_digit (c # cs) = c # cs"
    using takeWhile_nat_digits [of n] cs by simp
  then show ?thesis
    using c digits_value_nat_digits [of n] by (simp add: parseInt_def cs Let_def)
qed

lemma parseInt_Number_toString: "parseInt (Number_toString n) = Some n"
proof (cases "n < 0")
  case False
  then show ?thesis by (simp add: Number_toString_def parseInt_nat_digits)
next
  case True
  have "\<not> is_whitespace CHR ''-''" by (simp add: is_whitespace_def)
  then show ?thesis
    using True
    by (simp add: Number_toString_def parseInt_def Let_def takeWhile_nat_digits
        nat_digits_not_Nil digits_value_nat_digits)
qed

lemma Number_toString_not_Nil: "Number_toString n \<noteq> []"
  by (simp add: Number_toString_def nat_digits_not_Nil)

lemma parseInt_None_not_numeral: "parseInt s = None \<Longrightarrow> \<forall>k. s \<noteq> Number_toString k"
  using parseInt_Number_toString by fastforce

section \<open>Properties of \<^verbatim>\<open>resolveMilestone\<close>\<close>

lemma round_trip_safe:
  "safe_integer k \<Longrightarrow> round_trip w (Number_toString k) = Some k"
  by (simp add: round_trip_def parseInt_Number_toString)

lemma round_trip_not_numeral:
  "\<forall>k. s \<noteq> Number_toString k \<Longrightarrow> round_trip w s = None"
  by (cases "parseInt s") (auto simp: round_trip_def)

lemma resolveMilestone_string:
  "s \<noteq> [] \<Longrightarrow> resolveMilestone (JStr s) mp w =
     (case round_trip w s of
        Some parsed \<Rightarrow> (Inr (Some parsed), w)
      | None \<Rightarrow> (case map_of mp s of Some number \<Rightarrow> (Inr (Some number), w)
                | None \<Rightarrow> (Inr None, emit (not_found_warning s) w)))"
  by (simp add: resolveMilestone_def split: option.splits)

lemma resolveMilestone_falsy: "\<not> truthy m \<Longrightarrow> resolveMilestone m mp w = (Inr None, w)"
  by (simp add: resolveMilestone_def)

lemma resolveMilestone_number: "n \<noteq> 0 \<Longrightarrow> resolveMilestone (JNum n) mp w = (Inr (Some n), w)"
  by (simp add: resolveMilestone_def)

lemma resolveMilestone_numeral:
  "safe_integer k \<Longrightarrow> resolveMilestone (JStr (Number_toString k)) mp w = (Inr (Some k), w)"
  by (simp add: resolveMilestone_string Number_toString_not_Nil round_trip_safe)

lemma resolveMilestone_title:
  assumes "s \<noteq> []" "\<forall>k. s \<noteq> Number_toString k"
  shows "resolveMilestone (JStr s) mp w =
     (case map_of mp s of Some number \<Rightarrow> (Inr (Some number), w)
      | None \<Rightarrow> (Inr None, emit (not_found_warning s) w))"
  using assms(1) by (simp add: resolveMilestone_string round_trip_not_numeral [OF assms(2)])

lemma parseInt_v1: "parseInt ''v1'' = None" "parseInt ''v2'' = None"
  by (simp_all add: parseInt_def is_whitespace_def is_digit_def)

lemma Number_toString_5: "Number_toString 5 = ''5''"
  by (simp add: Number_toString_def nat_digits.simps digit_char_def)

lemma parseInt_05: "parseInt ''05'' = Some 5"
  by (simp add: parseInt_def is_whitespace_def is_digit_def digits_value_def digit_val_def)

lemma round_trip_05: "round_trip w ''05'' = None"
  by (simp add: round_trip_def parseInt_05 Number_toString_5)

lemma whole_05: "whole_string_integer ''05'' = Some 5"
  by (simp add: whole_string_integer_def parseInt_05 is_digit_def)

text \<open>
  Claim C2, as stated, at the reference \<^verbatim>\<open>"05"\<close>: its whole content parses as the integer
  5, yet it does not resolve to 5. It is looked up as a title, so resolves to 7 with the
  map \<^verbatim>\<open>{"05": 7}\<close> and to no milestone with the map \<^verbatim>\<open>{"v1": 10}\<close>.
\<close>

theorem C2_counterexample:
  "whole_string_integer ''05'' = Some 5
   \<and> resolveMilestone (JStr ''05'') [(''05'', 7)] initial_world = (Inr (Some 7), initial_world)
   \<and> fst (resolveMilestone (JStr ''05'') [(''v1'', 10)] initial_world) = Inr None"
proof -
  have "resolveMilestone (JStr ''05'') [(''05'', 7)] initial_world = (Inr (Some 7), initial_world)"
    by (simp add: resolveMilestone_string round_trip_05)
  moreover have "fst (resolveMilestone (JStr ''05'') [(''v1'', 10)] initial_world) = Inr None"
    by (simp add: resolveMilestone_string round_trip_05)
  ultimately show ?thesis
    by (intro conjI whole_05)
qed

text \<open>
  Claim C2, amended. A falsy reference resolves to no milestone, the world unchanged (no
  warning). A number other than 0 is used as it is. A string that is the decimal numeral
  of an integer of magnitude at most \<open>2^53\<close>, as printing the integer gives it (a minus
  sign when negative, no plus sign, no leading zero, no white space), resolves to that
  integer whatever the map holds. Every non-empty string that is not the decimal numeral
  of an integer is looked up as it is in the map: found, it resolves to the number there;
  not found, to no milestone, with one warning logged. (On the numeral of an integer
  beyond \<open>2^53\<close> the outcome depends on the rounding of doubles, and nothing is stated.)
  With the map \<^verbatim>\<open>{"v1": 10}\<close>: \<^verbatim>\<open>"v1"\<close> gives 10, \<^verbatim>\<open>"5"\<close> gives 5 (also when the map
  has the title \<^verbatim>\<open>"5"\<close>), \<^verbatim>\<open>"v2"\<close> gives none with the warning, \<^verbatim>\<open>null\<close> gives none
  without.
\<close>

theorem C2_resolveMilestone:
  "(\<not> truthy m \<longrightarrow> resolveMilestone m mp w = (Inr None, w))
   \<and> (n \<noteq> 0 \<longrightarrow> resolveMilestone (JNum n) mp w = (Inr (Some n), w))
   \<and> (\<bar>k\<bar> \<le> 9007199254740992
        \<longrightarrow> resolveMilestone (JStr (Number_toString k)) mp w = (Inr (Some k), w))
   \<and> (s \<noteq> [] \<and> (\<forall>k. s \<noteq> Number_toString k) \<longrightarrow>
        (\<forall>i. map_of mp s = Some i \<longrightarrow> resolveMilestone (JStr s) mp w = (Inr (Some i), w))
        \<and> (map_of mp s = None \<longrightarrow>
             resolveMilestone (JStr s) mp w = (Inr None, emit (not_found_warning s) w)))
   \<and> resolveMilestone (JStr ''v1'') [(''v1'', 10)] w = (Inr (Some 10), w)
   \<and> resolveMilestone (JStr ''5'') [(''v1'', 10)] w = (Inr (Some 5), w)
   \<and> resolveMilestone (JStr ''5'') [(''5'', 10)] w = (Inr (Some 5), w)
   \<and> resolveMilestone (JStr ''v2'') [(''v1'', 10)] w = (Inr None, emit (not_found_warning ''v2'') w)
   \<and> resolveMilestone JNull [(''v1'', 10)] w = (Inr None, w)"
proof -
  have a: "\<not> truthy m \<longrightarrow> resolveMilestone m mp w = (Inr None, w)"
    by (simp add: resolveMilestone_falsy)
  have b: "n \<noteq> 0 \<longrightarrow> resolveMilestone (JNum n) mp w = (Inr (Some n), w)"
    by (simp add: resolveMilestone_number)
  have c: "\<bar>k\<bar> \<le> 9007199254740992
        \<longrightarrow> resolveMilestone (JStr (Number_toString k)) mp w = (Inr (Some k), w)"
    by (simp add: resolveMilestone_numeral safe_integer_def)
  have d: "s \<noteq> [] \<and> (\<forall>k. s \<noteq> Number_toString k) \<longrightarrow>
        (\<forall>i. map_of mp s = Some i \<longrightarrow> resolveMilestone (JStr s) mp w = (Inr (Some i), w))
        \<and> (map_of mp s = None \<longrightarrow>
             resolveMilestone (JStr s) mp w = (Inr None, emit (not_found_warning s) w))"
    by (simp add: resolveMilestone_title)
  have v: "\<forall>k. ''v1'' \<noteq> Number_toString k" "\<forall>k. ''v2'' \<noteq> Number_toString k"
    using parseInt_None_not_numeral parseInt_v1 by blast+
  have e1: "resolveMilestone (JStr ''v1'') [(''v1'', 10)] w = (Inr (Some 10), w)"
    by (simp add: resolveMilestone_title [OF _ v(1)])
  have e2: "resolveMilestone (JStr ''5'') mp' w = (Inr (Some 5), w)" for mp'
    using resolveMilestone_numeral [of 5 mp' w] by (simp add: Number_toString_5 safe_integer_def)
  have e3: "resolveMilestone (JStr ''v2'') [(''v1'', 10)] w = (Inr None, emit (not_found_warning ''v2'') w)"
    by (simp add: resolveMilestone_title [OF _ v(2)])
  have e4: "resolveMilestone JNull [(''v1'', 10)] w = (Inr None, w)"
    by (simp add: resolveMilestone_falsy)
  show ?thesis
    by (intro conjI a b c d e1 e2 e3 e4)
qed

theorem C2_resolveMilestone_witness:
  "\<not> truthy (JStr []) \<and> resolveMilestone (JStr []) [(''v1'', 10)] initial_world = (Inr None, initial_world)
   \<and> (7::int) \<noteq> 0 \<and> resolveMilestone (JNum 7) [(''v1'', 10)] initial_world = (Inr (Some 7), initial_world)
   \<and> \<bar>5::int\<bar> \<le> 9007199254740992
   \<and> resolveMilestone (JStr (Number_toString 5)) [(''v1'', 10)] initial_world
       = (Inr (Some 5), initial_world)
   \<and> ''v1'' \<noteq> [] \<and> (\<forall>k. ''v1'' \<noteq> Number_toString k) \<and> map_of [(''v1'', 10::int)] ''v1'' = Some 10
   \<and> resolveMilestone (JStr ''v1'') [(''v1'', 10)] initial_world = (Inr (Some 10), initial_world)"
proof -
  have h: "''v1'' \<noteq> [] \<and> (\<forall>k. ''v1'' \<noteq> Number_toString k)"
    using parseInt_None_not_numeral [OF parseInt_v1(1)] by simp
  have t: "\<not> truthy (JStr [])" by simp
  have z: "(7::int) \<noteq> 0" by simp
  have f: "\<bar>5::int\<bar> \<le> 9007199254740992" by simp
  have l: "map_of [(''v1'', 10::int)] ''v1'' = Some 10" by simp
  note c = C2_resolveMilestone [of "JStr []" "[(''v1'', 10)]" initial_world 7 5 "''v1''"]
  have 1: "resolveMilestone (JStr []) [(''v1'', 10)] initial_world = (Inr None, initial_world)"
    using c [THEN conjunct1, THEN mp, OF t] .
  have 2: "resolveMilestone (JNum 7) [(''v1'', 10)] initial_world = (Inr (Some 7), initial_world)"
    using c [THEN conjunct2, THEN conjunct1, THEN mp, OF z] .
  have 3: "resolveMilestone (JStr (Number_toString 5)) [(''v1'', 10)] initial_world
       = (Inr (Some 5), initial_world)"
    using c [THEN conjunct2, THEN conjunct2, THEN conjunct1, THEN mp, OF f] .
  have 4: "resolveMilestone (JStr ''v1'') [(''v1'', 10)] initial_world = (Inr (Some 10), initial_world)"
    using c [THEN conjunct2, THEN conjunct2, THEN conjunct2, THEN conjunct1, THEN mp, OF h,
        THEN conjunct1, rule_format, OF l] .
  show ?thesis
    using h by (intro conjI t z f l 1 2 3 4) simp_all
qed

section \<open>Properties of the loop of \<^verbatim>\<open>run\<close>\<close>

lemma run_iteration_error:
  assumes "validateIssue octokit ctx (issues ! i) i milestoneMap (world st) = (Inl e, w1)"
  shows "results (run_iteration octokit ctx issues milestoneMap dryRun i st)
           = results st @ [Failed (title_or_unknown (issues ! i)) (Some (error_message e))]"
    and "successCount (run_iteration octokit ctx issues milestoneMap dryRun i st) = successCount st"
    and "failureCount (run_iteration octokit ctx issues milestoneMap dryRun i st)
           = failureCount st + 1"
  using assms by (simp_all add: run_iteration_def)

lemma run_iteration_valid:
  assumes "validateIssue octokit ctx (issues ! i) i milestoneMap (world st) = (Inr v, w1)"
  shows "results (run_iteration octokit ctx issues milestoneMap dryRun i st)
           = results st @ [fst (createIssue octokit ctx v dryRun w1)]"
    and "successCount (run_iteration octokit ctx issues milestoneMap dryRun i st)
           = successCount st + count_success (fst (createIssue octokit ctx v dryRun w1))"
    and "failureCount (run_iteration octokit ctx issues milestoneMap dryRun i st)
           = failureCount st + count_failure (fst (createIssue octokit ctx v dryRun w1))"
  using assms
  by (cases "createIssue octokit ctx v dryRun w1";
      simp add: run_iteration_def count_success_def count_failure_def)+

lemma run_iteration_error_world:
  assumes "validateIssue octokit ctx (issues ! i) i milestoneMap (world st) = (Inl e, w1)"
  shows "world (run_iteration octokit ctx issues milestoneMap dryRun i st)
           = emit (LogError (''Failed to process issue at index '' @ Number_toString (int i)
                             @ '': '' @ error_message e)) w1"
  using assms by (simp add: run_iteration_def)

lemma run_iteration_valid_world:
  assumes "validateIssue octokit ctx (issues ! i) i milestoneMap (world st) = (Inr v, w1)"
  shows "world (run_iteration octokit ctx issues milestoneMap dryRun i st)
           = (if \<not> dryRun \<and> i < length issues - 1
              then emit (Delay 100) (snd (createIssue octokit ctx v dryRun w1))
              else snd (createIssue octokit ctx v dryRun w1))"
  using assms
  by (cases "createIssue octokit ctx v dryRun w1") (auto simp: run_iteration_def)

lemma run_iteration_appends:
  "\<exists>r. results (run_iteration octokit ctx issues milestoneMap dryRun i st) = results st @ [r]
     \<and> successCount (run_iteration octokit ctx issues milestoneMap dryRun i st)
         = successCount st + count_success r
     \<and> failureCount (run_iteration octokit ctx issues milestoneMap dryRun i st)
         = failureCount st + count_failure r"
proof (cases "validateIssue octokit ctx (issues ! i) i milestoneMap (world st)")
  case (Pair res w1)
  show ?thesis
  proof (cases res)
    case (Inl e)
    have v: "validateIssue octokit ctx (issues ! i) i milestoneMap (world st) = (Inl e, w1)"
      using Pair Inl by simp
    show ?thesis
      by (rule exI [of _ "Failed (title_or_unknown (issues ! i)) (Some (error_message e))"])
         (simp add: run_iteration_error [OF v] count_success_def count_failure_def)
  next
    case (Inr v)
    have v: "validateIssue octokit ctx (issues ! i) i milestoneMap (world st) = (Inr v, w1)"
      using Pair Inr by simp
    show ?thesis
      by (rule exI [of _ "fst (createIssue octokit ctx v dryRun w1)"])
         (simp add: run_iteration_valid [OF v])
  qed
qed

lemma run_prefix_0: "run_prefix octokit ctx issues milestoneMap dryRun 0 st = st"
  by (simp add: run_prefix_def)

lemma run_prefix_Suc:
  "run_prefix octokit ctx issues milestoneMap dryRun (Suc k) st
     = run_iteration octokit ctx issues milestoneMap dryRun k
         (run_prefix octokit ctx issues milestoneMap dryRun k st)"
  by (simp add: run_prefix_def)

lemma run_loop_from:
  "run_loop octokit ctx issues milestoneMap dryRun i st
     = foldl (\<lambda>s j. run_iteration octokit ctx issues milestoneMap dryRun j s) st [i..<length issues]"
proof (induction octokit ctx issues milestoneMap dryRun i st rule: run_loop.induct)
  case (1 octokit ctx issues milestoneMap dryRun i st)
  show ?case
  proof (cases "i < length issues")
    case True
    then have "[i..<length issues] = i # [i + 1..<length issues]"
      by (simp add: upt_conv_Cons)
    then show ?thesis
      using True "1.IH" by (subst run_loop.simps) simp
  next
    case False
    then show ?thesis by (subst run_loop.simps) simp
  qed
qed

lemma run_loop_prefix:
  "run_loop octokit ctx issues milestoneMap dryRun 0 st
     = run_prefix octokit ctx issues milestoneMap dryRun (length issues) st"
  by (simp add: run_loop_from run_prefix_def)

lemma run_prefix_counts:
  "\<exists>rs. results (run_prefix octokit ctx issues milestoneMap dryRun k st) = results st @ rs
     \<and> length rs = k
     \<and> successCount (run_prefix octokit ctx issues milestoneMap dryRun k st)
         = successCount st + length (filter is_success rs)
     \<and> failureCount (run_prefix octokit ctx issues milestoneMap dryRun k st)
         = failureCount st + length (filter (\<lambda>r. \<not> is_success r) rs)"
proof (induction k)
  case 0
  show ?case by (rule exI [of _ "[]"]) (simp add: run_prefix_0)
next
  case (Suc k)
  then obtain rs where
    r1: "results (run_prefix octokit ctx issues milestoneMap dryRun k st) = results st @ rs"
    and r2: "length rs = k"
    and r3: "successCount (run_prefix octokit ctx issues milestoneMap dryRun k st)
         = successCount st + length (filter is_success rs)"
    and r4: "failureCount (run_prefix octokit ctx issues milestoneMap dryRun k st)
         = failureCount st + length (filter (\<lambda>r. \<not> is_success r) rs)"
    by (elim exE conjE)
  obtain r where
    i1: "results (run_prefix octokit ctx issues milestoneMap dryRun (Suc k) st)
           = results (run_prefix octokit ctx issues milestoneMap dryRun k st) @ [r]"
    and i2: "successCount (run_prefix octokit ctx issues milestoneMap dryRun (Suc k) st)
           = successCount (run_prefix octokit ctx issues milestoneMap dryRun k st) + count_success r"
    and i3: "failureCount (run_prefix octokit ctx issues milestoneMap dryRun (Suc k) st)
           = failureCount (run_prefix octokit ctx issues milestoneMap dryRun k st) + count_failure r"
    using run_iteration_appends [of octokit ctx issues milestoneMap dryRun k
        "run_prefix octokit ctx issues milestoneMap dryRun k st"]
    unfolding run_prefix_Suc by (elim exE conjE)
  show ?case
    by (rule exI [of _ "rs @ [r]"])
       (simp add: i1 i2 i3 r1 r2 r3 r4 count_success_def count_failure_def)
qed

lemma run_prefix_take:
  "k \<le> n \<Longrightarrow>
     take (length (results st) + k) (results (run_prefix octokit ctx issues milestoneMap dryRun n st))
       = results (run_prefix octokit ctx issues milestoneMap dryRun k st)"
proof (induction n)
  case 0
  then show ?case by (simp add: run_prefix_0)
next
  case (Suc n)
  obtain rs where rs: "results (run_prefix octokit ctx issues milestoneMap dryRun n st) = results st @ rs"
    "length rs = n"
    using run_prefix_counts [of octokit ctx issues milestoneMap dryRun n st] by (elim exE conjE)
  obtain r where r: "results (run_prefix octokit ctx issues milestoneMap dryRun (Suc n) st)
           = results (run_prefix octokit ctx issues milestoneMap dryRun n st) @ [r]"
    using run_iteration_appends [of octokit ctx issues milestoneMap dryRun n
        "run_prefix octokit ctx issues milestoneMap dryRun n st"]
    unfolding run_prefix_Suc by (elim exE conjE)
  show ?case
  proof (cases "k = Suc n")
    case True
    then show ?thesis by (simp add: r rs)
  next
    case False
    with Suc.prems have "k \<le> n" by simp
    then have "take (length (results st) + k)
                 (results (run_prefix octokit ctx issues milestoneMap dryRun n st))
               = results (run_prefix octokit ctx issues milestoneMap dryRun k st)"
      by (rule Suc.IH)
    moreover have "length (results st) + k
                   \<le> length (results (run_prefix octokit ctx issues milestoneMap dryRun n st))"
      using \<open>k \<le> n\<close> by (simp add: rs)
    ultimately show ?thesis by (simp add: r)
  qed
qed

lemma run_loop_nth:
  assumes "i < length issues"
  shows "results (run_loop octokit ctx issues milestoneMap dryRun 0 (initial_state w)) ! i
         = last (results (run_prefix octokit ctx issues milestoneMap dryRun (Suc i) (initial_state w)))"
proof -
  let ?final = "results (run_prefix octokit ctx issues milestoneMap dryRun (length issues) (initial_state w))"
  let ?upto = "results (run_prefix octokit ctx issues milestoneMap dryRun (Suc i) (initial_state w))"
  have t: "take (Suc i) ?final = ?upto"
    using run_prefix_take [of "Suc i" "length issues" "initial_state w" octokit ctx issues milestoneMap dryRun]
      assms
    by (simp add: initial_state_def)
  obtain rs where rs: "?upto = results (initial_state w) @ rs" "length rs = Suc i"
    using run_prefix_counts [of octokit ctx issues milestoneMap dryRun "Suc i" "initial_state w"]
    by (elim exE conjE)
  then have len: "length ?upto = Suc i" by (simp add: initial_state_def)
  then have "?upto \<noteq> []" by auto
  then have "last ?upto = ?upto ! i" using len by (simp add: last_conv_nth)
  also have "\<dots> = take (Suc i) ?final ! i" by (simp only: t)
  also have "\<dots> = ?final ! i" by simp
  finally show ?thesis by (simp add: run_loop_prefix)
qed

lemma run_loop_counts:
  "length (results (run_loop octokit ctx issues milestoneMap dryRun 0 (initial_state w))) = length issues
   \<and> successCount (run_loop octokit ctx issues milestoneMap dryRun 0 (initial_state w))
       = length (filter is_success
           (results (run_loop octokit ctx issues milestoneMap dryRun 0 (initial_state w))))
   \<and> failureCount (run_loop octokit ctx issues milestoneMap dryRun 0 (initial_state w))
       = length (filter (\<lambda>r. \<not> is_success r)
           (results (run_loop octokit ctx issues milestoneMap dryRun 0 (initial_state w))))"
proof -
  obtain rs where
    "results (run_prefix octokit ctx issues milestoneMap dryRun (length issues) (initial_state w))
       = results (initial_state w) @ rs"
    "length rs = length issues"
    "successCount (run_prefix octokit ctx issues milestoneMap dryRun (length issues) (initial_state w))
         = successCount (initial_state w) + length (filter is_success rs)"
    "failureCount (run_prefix octokit ctx issues milestoneMap dryRun (length issues) (initial_state w))
         = failureCount (initial_state w) + length (filter (\<lambda>r. \<not> is_success r) rs)"
    using run_prefix_counts [of octokit ctx issues milestoneMap dryRun "length issues" "initial_state w"]
    by (elim exE conjE)
  then show ?thesis
    by (simp add: run_loop_prefix initial_state_def)
qed

lemma sum_filter_length: "length (filter P xs) + length (filter (\<lambda>x. \<not> P x) xs) = length xs"
  by (induction xs) auto

lemma title_or_unknown_truthy:
  "getProp issue ''title'' = Inr t \<Longrightarrow> truthy t \<Longrightarrow> title_or_unknown issue = t"
  by (cases issue) (simp_all add: title_or_unknown_def js_or_def readProp_def)

lemma title_or_unknown_placeholder:
  "(\<forall>t. getProp issue ''title'' = Inr t \<longrightarrow> \<not> truthy t) \<Longrightarrow>
     title_or_unknown issue = JStr ''Unknown''"
  by (cases issue) (simp_all add: title_or_unknown_def js_or_def readProp_def)

text \<open>
  Claim C3. For the record at every index \<open>j\<close>, in the world the loop has reached after
  the records before it (the world \<open>w\<close> for the first record): when its validation throws
  an error, the result of \<^verbatim>\<open>run\<close> at index \<open>j\<close> is the failed result with the title of the
  record, or with \<^verbatim>\<open>Unknown\<close> when the record has no title that counts as true (or is
  \<^verbatim>\<open>null\<close>), and with the message of the error, and the loop goes on from the world the
  validation left, with the error logged; when its validation succeeds, the issue is
  handed to \<^verbatim>\<open>createIssue\<close>, the result at index \<open>j\<close> is what \<^verbatim>\<open>createIssue\<close> returns, and
  the loop goes on from the world it leaves (after the pause, when there is one); in
  particular when the remote rejects the creation, the result is the failed result with
  the message of the rejection. The loop ends after the last record, with one result for
  each record.
\<close>

theorem C3_errors_become_failures:
  "j < length issues \<Longrightarrow>
     (\<forall>e w1. validateIssue octokit ctx (issues ! j) j milestoneMap
                (world (run_prefix octokit ctx issues milestoneMap dryRun j (initial_state w)))
              = (Inl e, w1) \<longrightarrow>
          results (run_loop octokit ctx issues milestoneMap dryRun 0 (initial_state w)) ! j
            = Failed (title_or_unknown (issues ! j)) (Some (error_message e))
          \<and> world (run_prefix octokit ctx issues milestoneMap dryRun (Suc j) (initial_state w))
            = emit (LogError (''Failed to process issue at index '' @ Number_toString (int j)
                              @ '': '' @ error_message e)) w1)
     \<and> (\<forall>v w1. validateIssue octokit ctx (issues ! j) j milestoneMap
                (world (run_prefix octokit ctx issues milestoneMap dryRun j (initial_state w)))
              = (Inr v, w1) \<longrightarrow>
          results (run_loop octokit ctx issues milestoneMap dryRun 0 (initial_state w)) ! j
            = fst (createIssue octokit ctx v dryRun w1)
          \<and> world (run_prefix octokit ctx issues milestoneMap dryRun (Suc j) (initial_state w))
            = (if \<not> dryRun \<and> j < length issues - 1
               then emit (Delay 100) (snd (createIssue octokit ctx v dryRun w1))
               else snd (createIssue octokit ctx v dryRun w1)))
     \<and> (\<forall>v w1 error.
          validateIssue octokit ctx (issues ! j) j milestoneMap
                (world (run_prefix octokit ctx issues milestoneMap dryRun j (initial_state w)))
              = (Inr v, w1)
          \<and> \<not> dryRun
          \<and> fst (issues_create octokit (issuePayload ctx v) (remote w1)) = Inl error \<longrightarrow>
          results (run_loop octokit ctx issues milestoneMap dryRun 0 (initial_state w)) ! j
            = Failed (JStr (issue_title v)) (createErrorMessage error))
     \<and> world (run_prefix octokit ctx issues milestoneMap dryRun 0 (initial_state w)) = w
     \<and> run_loop octokit ctx issues milestoneMap dryRun 0 (initial_state w)
         = run_prefix octokit ctx issues milestoneMap dryRun (length issues) (initial_state w)
     \<and> length (results (run_loop octokit ctx issues milestoneMap dryRun 0 (initial_state w)))
         = length issues
     \<and> (\<forall>t. getProp (issues ! j) ''title'' = Inr t \<and> truthy t
            \<longrightarrow> title_or_unknown (issues ! j) = t)
     \<and> ((\<forall>t. getProp (issues ! j) ''title'' = Inr t \<longrightarrow> \<not> truthy t)
            \<longrightarrow> title_or_unknown (issues ! j) = JStr ''Unknown'')"
proof -
  assume j: "j < length issues"
  define st where "st = run_prefix octokit ctx issues milestoneMap dryRun j (initial_state w)"
  have nth: "results (run_loop octokit ctx issues milestoneMap dryRun 0 (initial_state w)) ! j
             = last (results (run_iteration octokit ctx issues milestoneMap dryRun j st))"
    by (simp add: run_loop_nth [OF j] run_prefix_Suc st_def)
  have next_world: "world (run_prefix octokit ctx issues milestoneMap dryRun (Suc j) (initial_state w))
             = world (run_iteration octokit ctx issues milestoneMap dryRun j st)"
    by (simp add: run_prefix_Suc st_def)
  have a: "\<forall>e w1. validateIssue octokit ctx (issues ! j) j milestoneMap (world st) = (Inl e, w1) \<longrightarrow>
          results (run_loop octokit ctx issues milestoneMap dryRun 0 (initial_state w)) ! j
            = Failed (title_or_unknown (issues ! j)) (Some (error_message e))
          \<and> world (run_prefix octokit ctx issues milestoneMap dryRun (Suc j) (initial_state w))
            = emit (LogError (''Failed to process issue at index '' @ Number_toString (int j)
                              @ '': '' @ error_message e)) w1"
  proof (intro allI impI)
    fix e w1
    assume v: "validateIssue octokit ctx (issues ! j) j milestoneMap (world st) = (Inl e, w1)"
    have "results (run_loop octokit ctx issues milestoneMap dryRun 0 (initial_state w)) ! j
            = Failed (title_or_unknown (issues ! j)) (Some (error_message e))"
      by (simp add: nth run_iteration_error(1) [OF v])
    moreover have "world (run_prefix octokit ctx issues milestoneMap dryRun (Suc j) (initial_state w))
            = emit (LogError (''Failed to process issue at index '' @ Number_toString (int j)
                              @ '': '' @ error_message e)) w1"
      unfolding next_world by (rule run_iteration_error_world [OF v])
    ultimately show "results (run_loop octokit ctx issues milestoneMap dryRun 0 (initial_state w)) ! j
            = Failed (title_or_unknown (issues ! j)) (Some (error_message e))
          \<and> world (run_prefix octokit ctx issues milestoneMap dryRun (Suc j) (initial_state w))
            = emit (LogError (''Failed to process issue at index '' @ Number_toString (int j)
                              @ '': '' @ error_message e)) w1"
      by (rule conjI)
  qed
  have b: "\<forall>v w1. validateIssue octokit ctx (issues ! j) j milestoneMap (world st) = (Inr v, w1) \<longrightarrow>
          results (run_loop octokit ctx issues milestoneMap dryRun 0 (initial_state w)) ! j
            = fst (createIssue octokit ctx v dryRun w1)
          \<and> world (run_prefix octokit ctx issues milestoneMap dryRun (Suc j) (initial_state w))
            = (if \<not> dryRun \<and> j < length issues - 1
               then emit (Delay 100) (snd (createIssue octokit ctx v dryRun w1))
               else snd (createIssue octokit ctx v dryRun w1))"
  proof (intro allI impI)
    fix v w1
    assume v: "validateIssue octokit ctx (issues ! j) j milestoneMap (world st) = (Inr v, w1)"
    have "results (run_loop octokit ctx issues milestoneMap dryRun 0 (initial_state w)) ! j
            = fst (createIssue octokit ctx v dryRun w1)"
      by (simp add: nth run_iteration_valid(1) [OF v])
    moreover have "world (run_prefix octokit ctx issues milestoneMap dryRun (Suc j) (initial_state w))
            = (if \<not> dryRun \<and> j < length issues - 1
               then emit (Delay 100) (snd (createIssue octokit ctx v dryRun w1))
               else snd (createIssue octokit ctx v dryRun w1))"
      unfolding next_world by (rule run_iteration_valid_world [OF v])
    ultimately show "results (run_loop octokit ctx issues milestoneMap dryRun 0 (initial_state w)) ! j
            = fst (createIssue octokit ctx v dryRun w1)
          \<and> world (run_prefix octokit ctx issues milestoneMap dryRun (Suc j) (initial_state w))
            = (if \<not> dryRun \<and> j < length issues - 1
               then emit (Delay 100) (snd (createIssue octokit ctx v dryRun w1))
               else snd (createIssue octokit ctx v dryRun w1))"
      by (rule conjI)
  qed
  have c: "\<forall>v w1 error.
          validateIssue octokit ctx (issues ! j) j milestoneMap (world st) = (Inr v, w1)
          \<and> \<not> dryRun
          \<and> fst (issues_create octokit (issuePayload ctx v) (remote w1)) = Inl error \<longrightarrow>
          results (run_loop octokit ctx issues milestoneMap dryRun 0 (initial_state w)) ! j
            = Failed (JStr (issue_title v)) (createErrorMessage error)"
  proof (intro allI impI, elim conjE)
    fix v w1 error
    assume v: "validateIssue octokit ctx (issues ! j) j milestoneMap (world st) = (Inr v, w1)"
      and d: "\<not> dryRun"
      and r: "fst (issues_create octokit (issuePayload ctx v) (remote w1)) = Inl error"
    obtain r' where "issues_create octokit (issuePayload ctx v) (remote w1) = (Inl error, r')"
      using r by (cases "issues_create octokit (issuePayload ctx v) (remote w1)") simp
    then have "fst (createIssue octokit ctx v False w1)
               = Failed (JStr (issue_title v)) (createErrorMessage error)"
      by (rule createIssue_failure)
    then have f: "fst (createIssue octokit ctx v dryRun w1)
               = Failed (JStr (issue_title v)) (createErrorMessage error)"
      using d by simp
    show "results (run_loop octokit ctx issues milestoneMap dryRun 0 (initial_state w)) ! j
            = Failed (JStr (issue_title v)) (createErrorMessage error)"
      by (simp add: nth run_iteration_valid(1) [OF v] f)
  qed
  have w0: "world (run_prefix octokit ctx issues milestoneMap dryRun 0 (initial_state w)) = w"
    by (simp add: run_prefix_0 initial_state_def)
  have len: "length (results (run_loop octokit ctx issues milestoneMap dryRun 0 (initial_state w)))
         = length issues"
    using run_loop_counts [of octokit ctx issues milestoneMap dryRun w] by (elim conjE)
  have t1: "\<forall>t. getProp (issues ! j) ''title'' = Inr t \<and> truthy t
            \<longrightarrow> title_or_unknown (issues ! j) = t"
    by (simp add: title_or_unknown_truthy)
  have t2: "(\<forall>t. getProp (issues ! j) ''title'' = Inr t \<longrightarrow> \<not> truthy t)
            \<longrightarrow> title_or_unknown (issues ! j) = JStr ''Unknown''"
    by (rule impI) (rule title_or_unknown_placeholder)
  show ?thesis
    by (intro conjI a [unfolded st_def] b [unfolded st_def] c [unfolded st_def] w0
        run_loop_prefix len t1 t2)
qed

lemma Number_toString_1: "Number_toString 1 = ''1''"
  by (simp add: Number_toString_def nat_digits.simps digit_char_def)

lemma validateIssue_bad:
  "validateIssue example_octokit example_context (JObj [(''title'', JStr ''bad'')]) 0 []
     initial_world = (Inr bad_issue, initial_world)"
  by (simp add: validateIssue_def readProp_def trim_def is_whitespace_def parseAssignees_def
      validateAssignees_def resolveMilestone_def parseLabels_def js_or_def bad_issue_def)

theorem C3_errors_become_failures_witness:
  "Suc 0 < length example_records
   \<and> validateIssue example_octokit example_context (example_records ! Suc 0) (Suc 0) []
        (world (run_prefix example_octokit example_context example_records [] True (Suc 0)
                  (initial_state initial_world)))
       = (Inl (Error ''Issue at index 1 is missing a valid title''),
          world (run_prefix example_octokit example_context example_records [] True (Suc 0)
                  (initial_state initial_world)))
   \<and> results (run_loop example_octokit example_context example_records [] True 0
                 (initial_state initial_world)) ! Suc 0
       = Failed (JStr ''Unknown'') (Some ''Issue at index 1 is missing a valid title'')
   \<and> length (results (run_loop example_octokit example_context example_records [] True 0
                 (initial_state initial_world))) = 3
   \<and> 0 < length rejected_records
   \<and> validateIssue example_octokit example_context (rejected_records ! 0) 0 []
        (world (run_prefix example_octokit example_context rejected_records [] False 0
                  (initial_state initial_world)))
       = (Inr bad_issue, initial_world)
   \<and> fst (issues_create example_octokit (issuePayload example_context bad_issue)
             (remote initial_world)) = Inl unprocessable
   \<and> results (run_loop example_octokit example_context rejected_records [] False 0
                 (initial_state initial_world)) ! 0
       = Failed (JStr ''bad'')
           (Some ''Validation Failed: title: too_long - Validation failed; labels: custom - bad label'')
   \<and> length (results (run_loop example_octokit example_context rejected_records [] False 0
                 (initial_state initial_world))) = 2"
proof -
  have l: "Suc 0 < length example_records"
    by (simp add: example_records_def)
  have r: "example_records ! Suc 0 = JObj [(''body'', JStr ''x'')]"
    by (simp add: example_records_def)
  have g: "getProp (example_records ! Suc 0) ''title'' = Inr JUndefined"
    using r by simp
  have v: "validateIssue example_octokit example_context (example_records ! Suc 0) (Suc 0) []
        (world (run_prefix example_octokit example_context example_records [] True (Suc 0)
                  (initial_state initial_world)))
       = (Inl (Error ''Issue at index 1 is missing a valid title''),
          world (run_prefix example_octokit example_context example_records [] True (Suc 0)
                  (initial_state initial_world)))"
    using validateIssue_invalid_title [OF g, of example_octokit example_context "Suc 0" "[]"]
    by (simp add: invalid_title_def Number_toString_1)
  note c = C3_errors_become_failures [OF l, of example_octokit example_context "[]" True initial_world]
  have t: "title_or_unknown (example_records ! Suc 0) = JStr ''Unknown''"
    using r by (simp add: title_or_unknown_def js_or_def readProp_def)
  have 1: "results (run_loop example_octokit example_context example_records [] True 0
                 (initial_state initial_world)) ! Suc 0
       = Failed (JStr ''Unknown'') (Some ''Issue at index 1 is missing a valid title'')"
    using c [THEN conjunct1, rule_format, OF v, THEN conjunct1] by (simp add: t)
  have 2: "length (results (run_loop example_octokit example_context example_records [] True 0
                 (initial_state initial_world))) = 3"
    using c [THEN conjunct2, THEN conjunct2, THEN conjunct2, THEN conjunct2, THEN conjunct2,
        THEN conjunct1]
    by (simp add: example_records_def)
  have l': "0 < length rejected_records"
    by (simp add: rejected_records_def)
  have v': "validateIssue example_octokit example_context (rejected_records ! 0) 0 []
        (world (run_prefix example_octokit example_context rejected_records [] False 0
                  (initial_state initial_world)))
       = (Inr bad_issue, initial_world)"
    using validateIssue_bad by (simp add: rejected_records_def run_prefix_0 initial_state_def)
  have rej: "fst (issues_create example_octokit (issuePayload example_context bad_issue)
             (remote initial_world)) = Inl unprocessable"
    by (simp add: example_octokit_def issuePayload_def bad_issue_def)
  have m: "createErrorMessage unprocessable
           = Some ''Validation Failed: title: too_long - Validation failed; labels: custom - bad label''"
    by (simp add: createErrorMessage_def unprocessable_def format_field_error_def
        field_error_text_def tmpl_def)
  note c' = C3_errors_become_failures [OF l', of example_octokit example_context "[]" False initial_world]
  have 3: "results (run_loop example_octokit example_context rejected_records [] False 0
                 (initial_state initial_world)) ! 0
       = Failed (JStr ''bad'')
           (Some ''Validation Failed: title: too_long - Validation failed; labels: custom - bad label'')"
    using c' [THEN conjunct2, THEN conjunct2, THEN conjunct1, rule_format, of bad_issue
        initial_world unprocessable] v' rej
    by (simp add: m bad_issue_def)
  have 4: "length (results (run_loop example_octokit example_context rejected_records [] False 0
                 (initial_state initial_world))) = 2"
    using c' [THEN conjunct2, THEN conjunct2, THEN conjunct2, THEN conjunct2, THEN conjunct2,
        THEN conjunct1]
    by (simp add: rejected_records_def)
  show ?thesis
    by (intro conjI l v 1 2 l' v' rej 3 4)
qed

lemma run_records_loop:
  "\<exists>milestoneMap w1. run_records octokit ctx issues dryRun w
      = run_loop octokit ctx issues milestoneMap dryRun 0 (initial_state w1)"
  by (cases "getMilestoneMapping octokit ctx
             (emit (Info (''Found '' @ Number_toString (int (length issues))
                          @ '' issues to import'')) w)")
     (auto simp: run_records_def)

lemma log_results_trace:
  "\<exists>lines. trace (snd (log_results rs w)) = trace w @ lines"
proof (induction rs arbitrary: w)
  case Nil
  show ?case by simp
next
  case (Cons r rs)
  show ?case
  proof (cases "result_lines r")
    case (Inl e)
    then show ?thesis by simp
  next
    case (Inr lines)
    obtain more where "trace (snd (log_results rs (emits lines w))) = trace (emits lines w) @ more"
      using Cons.IH [of "emits lines w"] by (elim exE)
    then have "trace (snd (log_results (r # rs) w)) = trace w @ (lines @ more)"
      by (simp add: Inr world_simps)
    then show ?thesis by (rule exI)
  qed
qed

lemma run_report_trace:
  "\<exists>after. trace (run_report dryRun st)
     = trace (world st) @ outputs (successCount st) (failureCount st) @ after"
proof -
  define w1 where "w1 = emits (outputs (successCount st) (failureCount st)) (world st)"
  have t1: "trace w1 = trace (world st) @ outputs (successCount st) (failureCount st)"
    by (simp add: w1_def world_simps)
  define logged where "logged = (if length (results st) > 0
               then (case log_results (results st) (emit (StartGroup ''Import Results'') w1) of
                       (None, w2) \<Rightarrow> (None, emit EndGroup w2)
                     | (Some e, w2) \<Rightarrow> (Some e, w2))
               else (None, w1))"
  have r: "run_report dryRun st =
     (case logged of
           (Some e, w3) \<Rightarrow> emit (SetFailed (''Action failed: '' @ error_message e)) w3
         | (None, w3) \<Rightarrow>
             if failureCount st > 0 \<and> \<not> dryRun
             then emit (SetFailed (Number_toString (int (failureCount st))
                                   @ '' issues failed to import'')) w3
             else w3)"
    by (simp add: run_report_def Let_def logged_def w1_def outputs_def)
  have l: "\<exists>evs. trace (snd logged) = trace w1 @ evs"
  proof (cases "length (results st) > 0")
    case False
    then show ?thesis by (simp add: logged_def)
  next
    case True
    obtain err w2 where lr: "log_results (results st) (emit (StartGroup ''Import Results'') w1) = (err, w2)"
      by (cases "log_results (results st) (emit (StartGroup ''Import Results'') w1)")
    obtain lines where "trace w2 = trace (emit (StartGroup ''Import Results'') w1) @ lines"
      using log_results_trace [of "results st" "emit (StartGroup ''Import Results'') w1"] lr
      by auto
    then have "trace w2 = trace w1 @ StartGroup ''Import Results'' # lines"
      by (simp add: world_simps)
    then show ?thesis
      using True lr by (cases err) (simp_all add: logged_def world_simps)
  qed
  then obtain evs where evs: "trace (snd logged) = trace w1 @ evs" by (elim exE)
  obtain err w3 where lg: "logged = (err, w3)" by (cases logged)
  have "\<exists>last. trace (run_report dryRun st) = trace w3 @ last"
    by (cases err) (simp_all add: r lg world_simps)
  then obtain last where "trace (run_report dryRun st) = trace w3 @ last" by (elim exE)
  then have "trace (run_report dryRun st)
     = trace (world st) @ outputs (successCount st) (failureCount st) @ (evs @ last)"
    using evs lg by (simp add: t1)
  then show ?thesis by (rule exI)
qed

text \<open>
  Claim C10. For a non-empty sequence of records, the loop of \<^verbatim>\<open>run\<close> ends with as many
  results as there are records, the two counters add up to the number of records, and
  \<^verbatim>\<open>run\<close> sets the outputs \<^verbatim>\<open>issues-created\<close> and \<^verbatim>\<open>issues-failed\<close> to these two counters.
\<close>

theorem C10_every_record_counted:
  "issues \<noteq> [] \<Longrightarrow>
     length (results (run_records octokit ctx issues dryRun w)) = length issues
     \<and> successCount (run_records octokit ctx issues dryRun w)
         + failureCount (run_records octokit ctx issues dryRun w) = length issues
     \<and> (\<exists>before after. trace (run octokit ctx issues dryRun w)
           = before
             @ [SetOutput ''issues-created''
                  (Number_toString (int (successCount (run_records octokit ctx issues dryRun w)))),
                SetOutput ''issues-failed''
                  (Number_toString (int (failureCount (run_records octokit ctx issues dryRun w))))]
             @ after)"
proof -
  assume ne: "issues \<noteq> []"
  obtain milestoneMap w1 where rr: "run_records octokit ctx issues dryRun w
      = run_loop octokit ctx issues milestoneMap dryRun 0 (initial_state w1)"
    using run_records_loop [of octokit ctx issues dryRun w] by (elim exE)
  note counts = run_loop_counts [of octokit ctx issues milestoneMap dryRun w1]
  have a: "length (results (run_records octokit ctx issues dryRun w)) = length issues"
    using counts by (simp add: rr)
  have b: "successCount (run_records octokit ctx issues dryRun w)
         + failureCount (run_records octokit ctx issues dryRun w) = length issues"
    using counts sum_filter_length [of is_success "results (run_records octokit ctx issues dryRun w)"]
    by (simp add: rr)
  define st where "st = run_records octokit ctx issues dryRun w"
  obtain after where
    "trace (run_report dryRun st)
       = trace (world st) @ outputs (successCount st) (failureCount st) @ after"
    using run_report_trace [of dryRun st] by (elim exE)
  then have "trace (run octokit ctx issues dryRun w)
       = (trace (world st) @ [Info (summary_line (successCount st) (failureCount st))])
         @ [SetOutput ''issues-created'' (Number_toString (int (successCount st))),
            SetOutput ''issues-failed'' (Number_toString (int (failureCount st)))]
         @ (SetOutput ''summary'' (summary_line (successCount st) (failureCount st)) # after)"
    using ne by (simp add: run_def st_def outputs_def)
  then have c: "\<exists>before after. trace (run octokit ctx issues dryRun w)
           = before
             @ [SetOutput ''issues-created'' (Number_toString (int (successCount st))),
                SetOutput ''issues-failed'' (Number_toString (int (failureCount st)))]
             @ after"
    by (intro exI)
  show ?thesis
    using c unfolding st_def by (intro conjI a b)
qed

theorem C10_every_record_counted_witness:
  "example_records \<noteq> []
   \<and> length (results (run_records example_octokit example_context example_records True
                         initial_world)) = 3
   \<and> successCount (run_records example_octokit example_context example_records True initial_world)
       + failureCount (run_records example_octokit example_context example_records True initial_world)
       = 3"
proof -
  have ne: "example_records \<noteq> []"
    by (simp add: example_records_def)
  note c = C10_every_record_counted [OF ne, of example_octokit example_context True initial_world]
  have 1: "length (results (run_records example_octokit example_context example_records True
                         initial_world)) = 3"
    using c [THEN conjunct1] by (simp add: example_records_def)
  have 2: "successCount (run_records example_octokit example_context example_records True initial_world)
       + failureCount (run_records example_octokit example_context example_records True initial_world)
       = 3"
    using c [THEN conjunct2, THEN conjunct1] by (simp add: example_records_def)
  show ?thesis
    by (intro conjI ne 1 2)
qed

section \<open>Properties of the report of \<^verbatim>\<open>run\<close>\<close>

lemma result_lines_no_failure:
  "result_lines r = Inr lines \<Longrightarrow> filter is_set_failed lines = []"
  by (cases r) (auto split: option.splits if_splits)

lemma log_results_no_failure:
  "\<exists>lines. trace (snd (log_results rs w)) = trace w @ lines \<and> filter is_set_failed lines = []"
proof (induction rs arbitrary: w)
  case Nil
  show ?case by simp
next
  case (Cons r rs)
  show ?case
  proof (cases "result_lines r")
    case (Inl e)
    then show ?thesis by simp
  next
    case (Inr lines)
    obtain more where m: "trace (snd (log_results rs (emits lines w))) = trace (emits lines w) @ more"
      "filter is_set_failed more = []"
      using Cons.IH [of "emits lines w"] by (elim exE conjE)
    have "trace (snd (log_results (r # rs) w)) = trace w @ (lines @ more)"
      using m(1) by (simp add: Inr world_simps)
    moreover have "filter is_set_failed (lines @ more) = []"
      using m(2) result_lines_no_failure [OF Inr] by simp
    ultimately show ?thesis by (intro exI conjI)
  qed
qed

lemma log_results_error_fixed: "fst (log_results rs w) = fst (log_results rs w')"
proof (induction rs arbitrary: w w')
  case Nil
  show ?case by simp
next
  case (Cons r rs)
  show ?case
    by (cases "result_lines r") (simp_all add: Cons.IH)
qed

text \<open>
  What \<^verbatim>\<open>run\<close> reports after the loop: when the detailed results can be printed, the
  run is reported as failed exactly when a record has failed and this is not a dry run;
  when printing throws, the run is reported as failed in every case.
\<close>

lemma run_report_decision:
  "\<exists>new. trace (run_report dryRun st) = trace (world st) @ new
     \<and> filter is_set_failed new =
         (case fst (log_results (results st) w0) of
            Some e \<Rightarrow> [SetFailed (''Action failed: '' @ error_message e)]
          | None \<Rightarrow>
              if failureCount st > 0 \<and> \<not> dryRun
              then [SetFailed (Number_toString (int (failureCount st))
                               @ '' issues failed to import'')]
              else [])"
proof -
  define outs where "outs = [Info (summary_line (successCount st) (failureCount st)),
      SetOutput ''issues-created'' (Number_toString (int (successCount st))),
      SetOutput ''issues-failed'' (Number_toString (int (failureCount st))),
      SetOutput ''summary'' (summary_line (successCount st) (failureCount st))]"
  define w1 where "w1 = emits outs (world st)"
  define wg where "wg = emit (StartGroup ''Import Results'') w1"
  define verdict where "verdict = (if failureCount st > 0 \<and> \<not> dryRun
              then [SetFailed (Number_toString (int (failureCount st))
                               @ '' issues failed to import'')]
              else [])"
  define logged where "logged = (if length (results st) > 0
               then (case log_results (results st) wg of
                       (None, w2) \<Rightarrow> (None, emit EndGroup w2)
                     | (Some e, w2) \<Rightarrow> (Some e, w2))
               else (None, w1))"
  have ev: "emits verdict w' = (if failureCount st > 0 \<and> \<not> dryRun
             then emit (SetFailed (Number_toString (int (failureCount st))
                                   @ '' issues failed to import'')) w'
             else w')" for w' :: "'a world"
    by (simp add: verdict_def emits_def emit_def)
  have r: "run_report dryRun st =
     (case logged of
           (Some e, w3) \<Rightarrow> emit (SetFailed (''Action failed: '' @ error_message e)) w3
         | (None, w3) \<Rightarrow>
             if failureCount st > 0 \<and> \<not> dryRun
             then emit (SetFailed (Number_toString (int (failureCount st))
                                   @ '' issues failed to import'')) w3
             else w3)"
    by (simp add: run_report_def Let_def logged_def w1_def wg_def outs_def)
  have o: "filter is_set_failed outs = []" by (simp add: outs_def)
  have t1: "trace w1 = trace (world st) @ outs" by (simp add: w1_def world_simps)
  have tg: "trace wg = trace (world st) @ outs @ [StartGroup ''Import Results'']"
    by (simp add: wg_def t1 world_simps)
  have v: "filter is_set_failed verdict = verdict" by (simp add: verdict_def)
  show ?thesis
  proof (cases "length (results st) > 0")
    case False
    then have lg: "logged = (None, w1)" by (simp add: logged_def)
    have "run_report dryRun st = emits verdict w1"
      by (simp add: r lg ev)
    then have "trace (run_report dryRun st) = trace (world st) @ (outs @ verdict)"
      by (simp add: t1 world_simps)
    moreover have "filter is_set_failed (outs @ verdict) =
         (case fst (log_results (results st) w0) of
            Some e \<Rightarrow> [SetFailed (''Action failed: '' @ error_message e)]
          | None \<Rightarrow> verdict)"
      using False by (simp add: o v)
    ultimately show ?thesis unfolding verdict_def by (intro exI conjI)
  next
    case True
    obtain err w2 where lr: "log_results (results st) wg = (err, w2)"
      by (cases "log_results (results st) wg")
    obtain lines where l: "trace w2 = trace wg @ lines" "filter is_set_failed lines = []"
      using log_results_no_failure [of "results st" wg] lr by auto
    have err: "fst (log_results (results st) w0) = err"
      using log_results_error_fixed [of "results st" w0 wg] lr by simp
    show ?thesis
    proof (cases err)
      case None
      have lg: "logged = (None, emit EndGroup w2)"
        using True by (simp add: logged_def lr None)
      have "run_report dryRun st = emits verdict (emit EndGroup w2)"
        by (simp add: r lg ev)
      then have "trace (run_report dryRun st)
                 = trace (world st) @ (outs @ [StartGroup ''Import Results''] @ lines @ [EndGroup] @ verdict)"
        by (simp add: l tg world_simps)
      moreover have "filter is_set_failed (outs @ [StartGroup ''Import Results''] @ lines @ [EndGroup] @ verdict)
         = (case fst (log_results (results st) w0) of
            Some e \<Rightarrow> [SetFailed (''Action failed: '' @ error_message e)]
          | None \<Rightarrow> verdict)"
        by (simp add: o v l err None)
      ultimately show ?thesis unfolding verdict_def by (intro exI conjI)
    next
      case (Some e)
      have lg: "logged = (Some e, w2)"
        using True by (simp add: logged_def lr Some)
      have "trace (run_report dryRun st)
                 = trace (world st) @ (outs @ [StartGroup ''Import Results''] @ lines
                     @ [SetFailed (''Action failed: '' @ error_message e)])"
        by (simp add: r lg l tg world_simps)
      moreover have "filter is_set_failed (outs @ [StartGroup ''Import Results''] @ lines
                     @ [SetFailed (''Action failed: '' @ error_message e)])
         = (case fst (log_results (results st) w0) of
            Some e \<Rightarrow> [SetFailed (''Action failed: '' @ error_message e)]
          | None \<Rightarrow> verdict)"
        by (simp add: o l err Some)
      ultimately show ?thesis unfolding verdict_def by (intro exI conjI)
    qed
  qed
qed

text \<open>
  Claim C1, at a dry run over one record whose title is an object with a property
  \<^verbatim>\<open>toString\<close>. The record fails validation, so the counters are 0 and 1; its title is
  kept in the failed result, and printing the detailed results throws on it. The handler
  of \<^verbatim>\<open>run\<close> then reports the failure of the whole run, although this is a dry run.
\<close>

theorem C1_dry_run_reports_failure:
  "results (run_records example_octokit example_context unprintable_records True initial_world)
     = [Failed (JObj [(''toString'', JNum 1)]) (Some ''Issue at index 0 is missing a valid title'')]
   \<and> successCount (run_records example_octokit example_context unprintable_records True initial_world) = 0
   \<and> failureCount (run_records example_octokit example_context unprintable_records True initial_world) = 1
   \<and> filter is_set_failed
        (trace (run example_octokit example_context unprintable_records True initial_world))
       = [SetFailed ''Action failed: Cannot convert object to primitive value'']"
proof (intro conjI)
  show "results (run_records example_octokit example_context unprintable_records True initial_world)
     = [Failed (JObj [(''toString'', JNum 1)]) (Some ''Issue at index 0 is missing a valid title'')]"
    by code_simp
  show "successCount (run_records example_octokit example_context unprintable_records True initial_world) = 0"
    by code_simp
  show "failureCount (run_records example_octokit example_context unprintable_records True initial_world) = 1"
    by code_simp
  show "filter is_set_failed
        (trace (run example_octokit example_context unprintable_records True initial_world))
       = [SetFailed ''Action failed: Cannot convert object to primitive value'']"
    by code_simp
qed

lemma example_run_dry:
  "filter is_set_failed (trace (run example_octokit example_context example_records True initial_world)) = []"
  by code_simp

lemma example_run_real:
  "filter is_set_failed (trace (run example_octokit example_context example_records False initial_world))
     = [SetFailed ''1 issues failed to import'']"
  by code_simp

lemma example_run_summary:
  "SetOutput ''summary'' ''Import completed: 2 successful, 1 failed''
     \<in> set (trace (run example_octokit example_context example_records False initial_world))"
  by code_simp

end
